theory Spec2Isabelle
  imports Main
begin

section \<open>Data model\<close>

subsection \<open>Element types\<close>

text \<open>
  The element types named by \<^verbatim>\<open>math_ops.py\<close> (the keys and values of the division table,
  \<^verbatim>\<open>bfloat16\<close> of \<^verbatim>\<open>to_bfloat16\<close> and \<^verbatim>\<open>matmul\<close>), with the boolean and string kinds.
\<close>

datatype DType =
    DT_uint8 | DT_int8 | DT_uint16 | DT_int16 | DT_int32 | DT_int64
  | DT_float16 | DT_float32 | DT_float64 | DT_complex64 | DT_complex128
  | DT_bfloat16 | DT_bool | DT_string

text \<open>
  Modelled from the spec: \<^verbatim>\<open>DType.base_dtype\<close> belongs to the dtypes module, which is not
  part of the sources. The spec's element types are a plain enumeration without reference
  variants, so the base of a dtype is the dtype itself.
\<close>

definition base_dtype :: "DType \<Rightarrow> DType" where
  "base_dtype d = d"

subsection \<open>Run-time values\<close>

text \<open>
  A value is a shape with its elements in row-major order. Elements are mathematical
  integers: fractional and complex elements and the rounding of floating-point kernels are
  outside the model.
\<close>

datatype ndarray = NDArray (dims: "nat list") (flat: "int list")

definition scalar :: "int \<Rightarrow> ndarray" where
  "scalar x = NDArray [] [x]"

definition vec :: "int list \<Rightarrow> ndarray" where
  "vec xs = NDArray [length xs] xs"

subsection \<open>Graph nodes\<close>

text \<open>
  The module builds nodes of a computation graph and hands them to the execution engine.
  A tensor is the node that produces it; each constructor is one primitive op of the engine
  used by the functions below (\<^verbatim>\<open>gen_math_ops\<close>, \<^verbatim>\<open>array_ops\<close>, \<^verbatim>\<open>constant_op\<close>).
\<close>

datatype tensor =
    Placeholder string DType
  | Const DType ndarray
  | Cast tensor DType
  | Maximum tensor tensor
  | Minimum tensor tensor
  | RealDiv tensor tensor
  | Add tensor tensor
  | Sub tensor tensor
  | Mul tensor tensor
  | GreaterEqual tensor tensor
  | Less tensor tensor
  | Range tensor tensor tensor
  | Rank tensor
  | Shape tensor
  | Size tensor
  | ListDiff tensor tensor
  | Gather tensor tensor
  | Prod tensor tensor bool
  | Concat tensor tensor tensor
  | Pack tensor tensor
  | StridedSlice tensor int
  | Transpose tensor tensor
  | Reshape tensor tensor
  | MatMul tensor tensor
  | BatchMatMul tensor tensor
  | SparseMatMul tensor tensor

fun dtype :: "tensor \<Rightarrow> DType" where
  "dtype (Placeholder n d) = d"
| "dtype (Const d v) = d"
| "dtype (Cast x d) = d"
| "dtype (Maximum x y) = dtype x"
| "dtype (Minimum x y) = dtype x"
| "dtype (RealDiv x y) = dtype x"
| "dtype (Add x y) = dtype x"
| "dtype (Sub x y) = dtype x"
| "dtype (Mul x y) = dtype x"
| "dtype (GreaterEqual x y) = DT_bool"
| "dtype (Less x y) = DT_bool"
| "dtype (Range s l d) = dtype s"
| "dtype (Rank x) = DT_int32"
| "dtype (Shape x) = DT_int32"
| "dtype (Size x) = DT_int32"
| "dtype (ListDiff x y) = dtype x"
| "dtype (Gather p i) = dtype p"
| "dtype (Prod x axes keep) = dtype x"
| "dtype (Concat d x y) = dtype x"
| "dtype (Pack x y) = dtype x"
| "dtype (StridedSlice x i) = dtype x"
| "dtype (Transpose x p) = dtype x"
| "dtype (Reshape x s) = dtype x"
| "dtype (MatMul x y) = dtype x"
| "dtype (BatchMatMul x y) = dtype x"
| "dtype (SparseMatMul x y) = dtype x"

record sparse_tensor =
  sp_indices :: tensor
  sp_values :: tensor
  sp_dense_shape :: tensor

text \<open>A Python integer or list of integers handed to the graph becomes an int32 constant.\<close>

definition constant_int32 :: "int \<Rightarrow> tensor" where
  "constant_int32 n = Const DT_int32 (scalar n)"

definition constant_int32_list :: "int list \<Rightarrow> tensor" where
  "constant_int32_list xs = Const DT_int32 (vec xs)"

subsection \<open>Static shapes\<close>

text \<open>
  A static shape is what is known of a tensor's shape while the graph is built: nothing
  (unknown rank), or one entry per dimension, each a size or unknown.
\<close>

type_synonym static_shape = "nat option list option"

definition ndims :: "static_shape \<Rightarrow> nat option" where
  "ndims s = map_option length s"

definition is_fully_defined :: "static_shape \<Rightarrow> bool" where
  "is_fully_defined s = (case s of None \<Rightarrow> False | Some ds \<Rightarrow> list_all (\<lambda>d. d \<noteq> None) ds)"

definition as_list :: "static_shape \<Rightarrow> nat list" where
  "as_list s = (case s of None \<Rightarrow> [] | Some ds \<Rightarrow> map the ds)"

text \<open>
  \<^verbatim>\<open>x.get_shape()\<close> asks the engine. A constant's static shape is its value's shape; for
  every other node it is whatever the engine's shape inference reports, which enters the
  model as the parameter \<open>shp\<close>.
\<close>

definition get_shape :: "(tensor \<Rightarrow> static_shape) \<Rightarrow> tensor \<Rightarrow> static_shape" where
  "get_shape shp t = (case t of Const d v \<Rightarrow> Some (map Some (dims v)) | _ \<Rightarrow> shp t)"

subsection \<open>Errors\<close>

text \<open>
  The exceptions raised by the functions below, under the names the spec gives them:
  \<^item> \<open>TypeMismatch\<close>: \<^verbatim>\<open>TypeError("x and y must have the same dtype, ...")\<close>;
  \<^item> \<open>UnsupportedType\<close>: \<^verbatim>\<open>TypeError("Invalid dtype %r in __truediv__")\<close>;
  \<^item> \<open>ConflictingArguments\<close>: \<^verbatim>\<open>ValueError("Can't specify both axis' and 'reduction_indices'.")\<close>;
  \<^item> \<open>InvalidAxisCount\<close>: \<^verbatim>\<open>ValueError("'axes' must be at least 1.")\<close>;
  \<^item> \<open>InvalidAxesLength\<close>: \<^verbatim>\<open>ValueError("Different number of contraction axes 'a' and 'b', ...")\<close>;
  \<^item> \<open>AxesNotPair\<close>: \<^verbatim>\<open>ValueError("'axes' must be an integer or have length 2.")\<close>;
  \<^item> \<open>IndexError\<close>: a Python list read out of range;
  \<^item> \<open>AssertionError\<close>: the dtype assertion of \<^verbatim>\<open>range\<close>.
\<close>

datatype error =
    TypeMismatch | UnsupportedType | ConflictingArguments
  | InvalidAxisCount | InvalidAxesLength | AxesNotPair
  | IndexError | AssertionError

section \<open>Casts\<close>

text \<open>
  \<^verbatim>\<open>cast\<close> on a dense tensor: the tensor itself when its base dtype is already the target,
  a \<open>Cast\<close> node otherwise. On a \<^verbatim>\<open>SparseTensor\<close> the values are cast and the sparse tensor
  is rebuilt around them (\<open>cast_sparse\<close>).
\<close>

definition cast :: "tensor \<Rightarrow> DType \<Rightarrow> tensor" where
  "cast x d =
     (let base_type = base_dtype d
      in if base_dtype (dtype x) = base_type then x else Cast x base_type)"

definition cast_sparse :: "sparse_tensor \<Rightarrow> DType \<Rightarrow> sparse_tensor" where
  "cast_sparse x d =
     (let base_type = base_dtype d; values_cast = cast (sp_values x) base_type
      in \<lparr>sp_indices = sp_indices x, sp_values = values_cast,
          sp_dense_shape = sp_dense_shape x\<rparr>)"


section \<open>True division\<close>

text \<open>The conversion table: \<open>None\<close> as a value means that no conversion is required.\<close>

definition TRUEDIV_TABLE :: "(DType \<times> DType option) list" where
  "TRUEDIV_TABLE =
     [(DT_uint8, Some DT_float32),
      (DT_int8, Some DT_float32),
      (DT_uint16, Some DT_float32),
      (DT_int16, Some DT_float32),
      (DT_int32, Some DT_float64),
      (DT_int64, Some DT_float64),
      (DT_float16, None),
      (DT_float32, None),
      (DT_float64, None),
      (DT_complex64, None),
      (DT_complex128, None)]"

definition truediv_python3 :: "tensor \<Rightarrow> tensor \<Rightarrow> error + tensor" where
  "truediv_python3 x y =
     (let x_dtype = base_dtype (dtype x); y_dtype = base_dtype (dtype y)
      in if x_dtype \<noteq> y_dtype then Inl TypeMismatch
         else case map_of TRUEDIV_TABLE x_dtype of
                None \<Rightarrow> Inl UnsupportedType
              | Some None \<Rightarrow> Inr (RealDiv x y)
              | Some (Some t) \<Rightarrow> Inr (RealDiv (cast x t) (cast y t)))"

section \<open>Ranges and reduction axes\<close>

text \<open>
  The module defines its own \<^verbatim>\<open>range\<close>, which shadows Python's: every call of \<^verbatim>\<open>range\<close>
  in the module builds a \<open>Range\<close> node. With no \<^verbatim>\<open>dtype\<close> argument the three operands are
  cast to the widest of their dtypes in the order int32, int64, float32, float64. The
  operands arrive here as tensors; a Python integer becomes an int32 constant.
\<close>

definition dtype_hierarchy :: "DType list" where
  "dtype_hierarchy = [DT_int32, DT_int64, DT_float32, DT_float64]"

definition hierarchy_index :: "DType \<Rightarrow> nat" where
  "hierarchy_index d = length (takeWhile (\<lambda>x. x \<noteq> d) dtype_hierarchy)"

definition max_by_index :: "DType \<Rightarrow> DType list \<Rightarrow> DType" where
  "max_by_index d ds =
     foldl (\<lambda>best x. if hierarchy_index best < hierarchy_index x then x else best) d ds"

definition range_op :: "tensor \<Rightarrow> tensor option \<Rightarrow> tensor \<Rightarrow> error + tensor" where
  "range_op start0 limit0 delta =
     (let (start, limit) =
            (case limit0 of None \<Rightarrow> (constant_int32 0, start0) | Some l \<Rightarrow> (start0, l))
      in if \<not> list_all (\<lambda>arg. dtype arg \<in> set dtype_hierarchy) [start, limit, delta]
         then Inl AssertionError
         else let inferred_dtype = max_by_index (dtype start) [dtype limit, dtype delta]
              in Inr (Range (cast start inferred_dtype) (cast limit inferred_dtype)
                        (cast delta inferred_dtype)))"

datatype reduce_input = DenseInput tensor | SparseInput sparse_tensor

datatype axis_arg = AxisInt int | AxisList "int list" | AxisTensor tensor

definition axis_tensor :: "axis_arg \<Rightarrow> tensor" where
  "axis_tensor a =
     (case a of AxisInt n \<Rightarrow> constant_int32 n
      | AxisList xs \<Rightarrow> constant_int32_list xs
      | AxisTensor t \<Rightarrow> t)"

text \<open>
  Modelled from the spec: \<^verbatim>\<open>array_ops.rank\<close> is not part of the sources. It is the
  run-time rank query: a \<open>Rank\<close> node on a dense tensor, the number of entries of the dense
  shape on a sparse one.
\<close>

definition array_ops_rank :: "reduce_input \<Rightarrow> tensor" where
  "array_ops_rank x =
     (case x of DenseInput t \<Rightarrow> Rank t | SparseInput s \<Rightarrow> Size (sp_dense_shape s))"

definition arange :: "nat \<Rightarrow> tensor" where
  "arange n = constant_int32_list (map int [0..<n])"

definition ReductionDims ::
  "(tensor \<Rightarrow> static_shape) \<Rightarrow> reduce_input \<Rightarrow> axis_arg option \<Rightarrow> axis_arg option
     \<Rightarrow> error + axis_arg" where
  "ReductionDims shp x axis0 reduction_indices =
     (if reduction_indices \<noteq> None \<and> axis0 \<noteq> None then Inl ConflictingArguments
      else
        let axis = (if reduction_indices \<noteq> None then reduction_indices else axis0)
        in case axis of
             Some a \<Rightarrow> Inr a
           | None \<Rightarrow>
               (case x of
                  DenseInput t \<Rightarrow>
                    (case ndims (get_shape shp t) of
                       Some n \<Rightarrow> Inr (AxisTensor (arange n))
                     | None \<Rightarrow>
                         map_sum id AxisTensor
                           (range_op (constant_int32 0) (Some (array_ops_rank x))
                              (constant_int32 1)))
                | SparseInput s \<Rightarrow>
                    if is_fully_defined (get_shape shp (sp_dense_shape s))
                    then (case as_list (get_shape shp (sp_dense_shape s)) of
                            [] \<Rightarrow> Inl IndexError
                          | rank # _ \<Rightarrow> Inr (AxisTensor (arange rank)))
                    else map_sum id AxisTensor
                           (range_op (constant_int32 0) (Some (array_ops_rank x))
                              (constant_int32 1))))"

definition reduce_prod ::
  "(tensor \<Rightarrow> static_shape) \<Rightarrow> tensor \<Rightarrow> axis_arg option \<Rightarrow> bool \<Rightarrow> axis_arg option
     \<Rightarrow> error + tensor" where
  "reduce_prod shp input_tensor axis keep_dims reduction_indices =
     (case ReductionDims shp (DenseInput input_tensor) axis reduction_indices of
        Inl e \<Rightarrow> Inl e
      | Inr ds \<Rightarrow> Inr (Prod input_tensor (axis_tensor ds) keep_dims))"

section \<open>Matrix multiplication\<close>

text \<open>
  \<^verbatim>\<open>matmul\<close> with its flags at their defaults, which is how \<^verbatim>\<open>tensordot\<close> calls it: the
  batched op when neither operand is statically known to have rank at most 2, the sparse op
  when an operand is bfloat16, the plain op otherwise.
\<close>

definition matmul :: "(tensor \<Rightarrow> static_shape) \<Rightarrow> tensor \<Rightarrow> tensor \<Rightarrow> tensor" where
  "matmul shp a b =
     (let a_shape = get_shape shp a; b_shape = get_shape shp b
      in if (case ndims a_shape of None \<Rightarrow> True | Some n \<Rightarrow> n > 2) \<and>
            (case ndims b_shape of None \<Rightarrow> True | Some n \<Rightarrow> n > 2)
         then BatchMatMul a b
         else if DT_bfloat16 \<in> {dtype a, dtype b} then SparseMatMul a b
         else MatMul a b)"

section \<open>Tensor contraction\<close>

datatype axes_arg = AxesInt int | AxesList "int list list" | AxesTensor tensor

text \<open>
  The contraction axes and the free dimensions travel either as Python lists or as tensors
  of the graph; the code tests which with \<^verbatim>\<open>isinstance\<close>.
\<close>

datatype axes_val = PyAxes "int list" | TAxes tensor

datatype dims_val = PyDims "nat list" | TDims tensor

definition is_py_axes :: "axes_val \<Rightarrow> bool" where
  "is_py_axes v = (case v of PyAxes xs \<Rightarrow> True | TAxes t \<Rightarrow> False)"

definition axes_tensor :: "axes_val \<Rightarrow> tensor" where
  "axes_tensor v = (case v of PyAxes xs \<Rightarrow> constant_int32_list xs | TAxes t \<Rightarrow> t)"

definition dims_tensor :: "dims_val \<Rightarrow> tensor" where
  "dims_tensor v = (case v of PyDims xs \<Rightarrow> constant_int32_list (map int xs) | TDims t \<Rightarrow> t)"

text \<open>Python list indexing: a negative index counts from the end, anything else raises.\<close>

definition py_index :: "'a list \<Rightarrow> int \<Rightarrow> 'a option" where
  "py_index xs i =
     (let n = int (length xs)
      in if - n \<le> i \<and> i < n then Some (xs ! nat (if i < 0 then i + n else i)) else None)"

fun py_index_all :: "'a list \<Rightarrow> int list \<Rightarrow> 'a list option" where
  "py_index_all xs [] = Some []"
| "py_index_all xs (i # is) =
     (case py_index xs i of
        None \<Rightarrow> None
      | Some v \<Rightarrow> (case py_index_all xs is of None \<Rightarrow> None | Some vs \<Rightarrow> Some (v # vs)))"

text \<open>
  \<^verbatim>\<open>_tensordot_reshape\<close>. With a fully defined static shape and axes given as a Python
  list, everything is computed on Python integers; otherwise the same quantities are built
  as nodes of the graph. (The dynamic branch also builds a concatenation of the two
  dimension vectors that it immediately overwrites; the returned tensors do not depend on
  it.) The static products are numpy's, on 64-bit integers; they are taken here on
  unbounded integers, a shape being far below that bound.
\<close>

definition tensordot_reshape ::
  "(tensor \<Rightarrow> static_shape) \<Rightarrow> tensor \<Rightarrow> axes_val \<Rightarrow> bool \<Rightarrow> error + (tensor \<times> dims_val)" where
  "tensordot_reshape shp a axes0 flipped =
     (if is_fully_defined (get_shape shp a) \<and> is_py_axes axes0 then
        let shape_a = as_list (get_shape shp a);
            axes = map (\<lambda>i. if i \<ge> 0 then i else i + int (length shape_a))
                     (case axes0 of PyAxes xs \<Rightarrow> xs | TAxes t \<Rightarrow> []);
            free = filter (\<lambda>i. int i \<notin> set axes) [0..<length shape_a];
            free_dims = map (\<lambda>i. shape_a ! i) free;
            prod_free = prod_list free_dims
        in case py_index_all shape_a axes of
             None \<Rightarrow> Inl IndexError
           | Some axes_dims \<Rightarrow>
               let prod_axes = prod_list axes_dims;
                   perm = (if flipped then axes @ map int free else map int free @ axes);
                   new_shape = (if flipped then [prod_axes, prod_free]
                                else [prod_free, prod_axes])
               in Inr (Reshape (Transpose a (constant_int32_list perm))
                         (constant_int32_list (map int new_shape)),
                       PyDims free_dims)
      else
        let shape_a = Shape a;
            rank_a = Rank a;
            axes1 = axes_tensor axes0;
            axes = Add (Mul (cast (GreaterEqual axes1 (constant_int32 0)) DT_int32) axes1)
                       (Mul (cast (Less axes1 (constant_int32 0)) DT_int32)
                            (Add axes1 rank_a))
        in case range_op rank_a None (constant_int32 1) of
             Inl e \<Rightarrow> Inl e
           | Inr r \<Rightarrow>
               let free = ListDiff r axes;
                   free_dims = Gather shape_a free;
                   axes_dims = Gather shape_a axes
               in case reduce_prod shp free_dims None False None of
                    Inl e \<Rightarrow> Inl e
                  | Inr prod_free_dims \<Rightarrow>
                      (case reduce_prod shp axes_dims None False None of
                         Inl e \<Rightarrow> Inl e
                       | Inr prod_axes_dims \<Rightarrow>
                           let perm = (if flipped then Concat (constant_int32 0) axes free
                                       else Concat (constant_int32 0) free axes);
                               new_shape = (if flipped then Pack prod_axes_dims prod_free_dims
                                            else Pack prod_free_dims prod_axes_dims)
                           in Inr (Reshape (Transpose a perm) new_shape, TDims free_dims)))"

text \<open>
  \<^verbatim>\<open>_tensordot_axes\<close>. For an integer \<^verbatim>\<open>axes\<close> and a statically known rank the two results
  are calls of the module's \<^verbatim>\<open>range\<close>, hence tensors. With an unknown rank the code calls
  \<^verbatim>\<open>array_ops.range\<close>, see \<open>array_ops_range\<close>. An axes tensor is split by indexing.
\<close>

text \<open>
  Modelled from the spec: \<^verbatim>\<open>array_ops.range\<close> is not part of the sources; the spec has
  the ranges "computed from the runtime rank", so it is the \<open>Range\<close> op on int32 operands
  with step 1.
\<close>

definition array_ops_range :: "tensor \<Rightarrow> tensor \<Rightarrow> tensor" where
  "array_ops_range start limit = Range start limit (constant_int32 1)"

definition tensordot_axes ::
  "(tensor \<Rightarrow> static_shape) \<Rightarrow> tensor \<Rightarrow> axes_arg \<Rightarrow> error + (axes_val \<times> axes_val)" where
  "tensordot_axes shp a axes =
     (let a_shape = get_shape shp a
      in case axes of
           AxesInt n \<Rightarrow>
             if n < 1 then Inl InvalidAxisCount
             else (case ndims a_shape of
                     Some r \<Rightarrow>
                       (case range_op (constant_int32 (int r - n)) (Some (constant_int32 (int r)))
                               (constant_int32 1) of
                          Inl e \<Rightarrow> Inl e
                        | Inr a_axes \<Rightarrow>
                            (case range_op (constant_int32 n) None (constant_int32 1) of
                               Inl e \<Rightarrow> Inl e
                             | Inr b_axes \<Rightarrow> Inr (TAxes a_axes, TAxes b_axes)))
                   | None \<Rightarrow>
                       let rank = Rank a
                       in Inr (TAxes (array_ops_range (Sub rank (constant_int32 n)) rank),
                               TAxes (array_ops_range (constant_int32 0) rank)))
         | AxesList l \<Rightarrow>
             if length l \<noteq> 2 then Inl AxesNotPair
             else let a_axes = l ! 0; b_axes = l ! 1
                  in if length a_axes \<noteq> length b_axes then Inl InvalidAxesLength
                     else Inr (PyAxes a_axes, PyAxes b_axes)
         | AxesTensor t \<Rightarrow> Inr (TAxes (StridedSlice t 0), TAxes (StridedSlice t 1)))"

text \<open>
  Modelled from the spec: the last statement of \<^verbatim>\<open>tensordot\<close> is cut off in the sources
  after \<^verbatim>\<open>return array_ops.reshape(\<close>. By the spec the product is reshaped to "a dynamically
  concatenated shape" of the free dimensions of \<^verbatim>\<open>a\<close> followed by those of \<^verbatim>\<open>b\<close>.
\<close>

definition dynamic_result :: "tensor \<Rightarrow> dims_val \<Rightarrow> dims_val \<Rightarrow> tensor" where
  "dynamic_result ab_matmul a_free_dims b_free_dims =
     Reshape ab_matmul
       (Concat (constant_int32 0) (dims_tensor a_free_dims) (dims_tensor b_free_dims))"

definition tensordot ::
  "(tensor \<Rightarrow> static_shape) \<Rightarrow> tensor \<Rightarrow> tensor \<Rightarrow> axes_arg \<Rightarrow> error + tensor" where
  "tensordot shp a b axes =
     (case tensordot_axes shp a axes of
        Inl e \<Rightarrow> Inl e
      | Inr (a_axes, b_axes) \<Rightarrow>
          (case tensordot_reshape shp a a_axes False of
             Inl e \<Rightarrow> Inl e
           | Inr (a_reshape, a_free_dims) \<Rightarrow>
               (case tensordot_reshape shp b b_axes True of
                  Inl e \<Rightarrow> Inl e
                | Inr (b_reshape, b_free_dims) \<Rightarrow>
                    let ab_matmul = matmul shp a_reshape b_reshape
                    in case (a_free_dims, b_free_dims) of
                         (PyDims fa, PyDims fb) \<Rightarrow>
                           Inr (Reshape ab_matmul (constant_int32_list (map int (fa @ fb))))
                       | _ \<Rightarrow> Inr (dynamic_result ab_matmul a_free_dims b_free_dims))))"

section \<open>The engine's kernels\<close>

text \<open>
  Modelled from the spec: the kernels that execute the nodes belong to the external engine
  and are not part of the sources. They follow the spec's description of the primitive ops
  (elementwise arithmetic with trailing-alignment broadcasting, comparison, matrix multiply,
  reshape, transpose, shape and rank query, set-difference, gather, stack and concat, range,
  narrowing cast). Arithmetic is exact on the integer elements; only the cast narrows.
  \<open>None\<close> is a failed execution, also for an input outside what is modelled here.
\<close>

fun unravel :: "nat list \<Rightarrow> nat \<Rightarrow> nat list" where
  "unravel [] k = []"
| "unravel (d # ds) k = (k div prod_list ds) # unravel ds (k mod prod_list ds)"

fun ravel :: "nat list \<Rightarrow> nat list \<Rightarrow> nat" where
  "ravel (d # ds) (i # is) = i * prod_list ds + ravel ds is"
| "ravel ds is = 0"

definition pad_shape :: "nat \<Rightarrow> nat list \<Rightarrow> nat list" where
  "pad_shape r s = replicate (r - length s) 1 @ s"

definition broadcast_shape :: "nat list \<Rightarrow> nat list \<Rightarrow> nat list option" where
  "broadcast_shape s t =
     (let r = max (length s) (length t); ps = pad_shape r s; pt = pad_shape r t
      in if list_all2 (\<lambda>x y. x = y \<or> x = 1 \<or> y = 1) ps pt
         then Some (map2 (\<lambda>x y. if x = 1 then y else x) ps pt)
         else None)"

definition bcast_index :: "nat list \<Rightarrow> nat list \<Rightarrow> nat" where
  "bcast_index ps j = ravel ps (map2 (\<lambda>d i. if d = 1 then 0 else i) ps j)"

definition elementwise :: "(int \<Rightarrow> int \<Rightarrow> int) \<Rightarrow> ndarray \<Rightarrow> ndarray \<Rightarrow> ndarray option" where
  "elementwise f a b =
     (case broadcast_shape (dims a) (dims b) of
        None \<Rightarrow> None
      | Some s \<Rightarrow>
          Some (NDArray s
            (map (\<lambda>k. let j = unravel s k
                      in f (flat a ! bcast_index (pad_shape (length s) (dims a)) j)
                           (flat b ! bcast_index (pad_shape (length s) (dims b)) j))
               [0..<prod_list s])))"

definition of_bool_int :: "bool \<Rightarrow> int" where
  "of_bool_int p = (if p then 1 else 0)"

text \<open>The narrowing cast of one element: two's-complement wrap-around on the integer kinds.\<close>

definition wrap_unsigned :: "nat \<Rightarrow> int \<Rightarrow> int" where
  "wrap_unsigned w x = x mod 2 ^ w"

definition wrap_signed :: "nat \<Rightarrow> int \<Rightarrow> int" where
  "wrap_signed w x = (x + 2 ^ (w - 1)) mod 2 ^ w - 2 ^ (w - 1)"

fun cast_element :: "DType \<Rightarrow> int \<Rightarrow> int" where
  "cast_element DT_uint8 x = wrap_unsigned 8 x"
| "cast_element DT_int8 x = wrap_signed 8 x"
| "cast_element DT_uint16 x = wrap_unsigned 16 x"
| "cast_element DT_int16 x = wrap_signed 16 x"
| "cast_element DT_int32 x = wrap_signed 32 x"
| "cast_element DT_int64 x = wrap_signed 64 x"
| "cast_element DT_bool x = of_bool_int (x \<noteq> 0)"
| "cast_element d x = x"

definition cast_nd :: "DType \<Rightarrow> DType \<Rightarrow> ndarray \<Rightarrow> ndarray option" where
  "cast_nd src dst a =
     (if src = DT_string \<or> dst = DT_string then None
      else Some (NDArray (dims a) (map (cast_element dst) (flat a))))"

definition range_nd :: "ndarray \<Rightarrow> ndarray \<Rightarrow> ndarray \<Rightarrow> ndarray option" where
  "range_nd s l d =
     (if dims s = [] \<and> dims l = [] \<and> dims d = [] \<and>
         length (flat s) = 1 \<and> length (flat l) = 1 \<and> length (flat d) = 1
      then let start = hd (flat s); limit = hd (flat l); delta = hd (flat d)
           in if delta > 0 \<and> start \<le> limit
              then Some (vec (map (\<lambda>i. start + int i * delta)
                                [0..<nat ((limit - start + delta - 1) div delta)]))
              else if delta < 0 \<and> limit \<le> start
              then Some (vec (map (\<lambda>i. start + int i * delta)
                                [0..<nat ((start - limit - delta - 1) div (- delta))]))
              else None
      else None)"

definition listdiff_nd :: "ndarray \<Rightarrow> ndarray \<Rightarrow> ndarray option" where
  "listdiff_nd x y =
     (if length (dims x) = 1 \<and> length (dims y) = 1
      then Some (vec (filter (\<lambda>v. v \<notin> set (flat y)) (flat x)))
      else None)"

text \<open>Gather from a vector of parameters, which is all the module gathers from.\<close>

definition gather_nd :: "ndarray \<Rightarrow> ndarray \<Rightarrow> ndarray option" where
  "gather_nd params idx =
     (if length (dims params) = 1 \<and>
         list_all (\<lambda>i. 0 \<le> i \<and> i < int (length (flat params))) (flat idx)
      then Some (NDArray (dims idx) (map (\<lambda>i. flat params ! nat i) (flat idx)))
      else None)"

definition prod_nd :: "ndarray \<Rightarrow> ndarray \<Rightarrow> bool \<Rightarrow> ndarray option" where
  "prod_nd a axes keep_dims =
     (let r = length (dims a)
      in if length (dims axes) \<le> 1 \<and> list_all (\<lambda>x. - int r \<le> x \<and> x < int r) (flat axes)
         then
           let ax = map (\<lambda>x. nat (if x < 0 then x + int r else x)) (flat axes);
               kept = filter (\<lambda>i. i \<notin> set ax) [0..<r];
               out_dims = map (\<lambda>i. dims a ! i) kept;
               cells =
                 map (\<lambda>k. prod_list
                            (map (\<lambda>j. flat a ! j)
                               (filter (\<lambda>j. map (\<lambda>i. unravel (dims a) j ! i) kept
                                              = unravel out_dims k)
                                  [0..<prod_list (dims a)])))
                   [0..<prod_list out_dims]
           in Some (NDArray
                      (if keep_dims
                       then map (\<lambda>i. if i \<in> set ax then 1 else dims a ! i) [0..<r]
                       else out_dims)
                      cells)
         else None)"

text \<open>Concatenation and stacking along the first axis.\<close>

definition concat_nd :: "ndarray \<Rightarrow> ndarray \<Rightarrow> ndarray \<Rightarrow> ndarray option" where
  "concat_nd d x y =
     (if d = scalar 0 \<and> dims x \<noteq> [] \<and> dims y \<noteq> [] \<and> tl (dims x) = tl (dims y)
      then Some (NDArray ((hd (dims x) + hd (dims y)) # tl (dims x)) (flat x @ flat y))
      else None)"

definition pack_nd :: "ndarray \<Rightarrow> ndarray \<Rightarrow> ndarray option" where
  "pack_nd x y =
     (if dims x = dims y then Some (NDArray (2 # dims x) (flat x @ flat y)) else None)"

definition strided_slice_nd :: "ndarray \<Rightarrow> int \<Rightarrow> ndarray option" where
  "strided_slice_nd x i =
     (case dims x of
        [] \<Rightarrow> None
      | d # ds \<Rightarrow>
          let j = (if i < 0 then i + int d else i)
          in if 0 \<le> j \<and> j < int d
             then Some (NDArray ds (take (prod_list ds) (drop (nat j * prod_list ds) (flat x))))
             else None)"

definition position :: "nat list \<Rightarrow> nat \<Rightarrow> nat" where
  "position q t = length (takeWhile (\<lambda>x. x \<noteq> t) q)"

definition transpose_nd :: "ndarray \<Rightarrow> ndarray \<Rightarrow> ndarray option" where
  "transpose_nd a perm =
     (let r = length (dims a); p = flat perm
      in if length (dims perm) = 1 \<and> length p = r \<and> distinct p \<and>
            list_all (\<lambda>i. 0 \<le> i \<and> i < int r) p
         then
           let q = map nat p;
               out_dims = map (\<lambda>i. dims a ! i) q
           in Some (NDArray out_dims
                (map (\<lambda>k. let j = unravel out_dims k
                          in flat a ! ravel (dims a) (map (\<lambda>t. j ! position q t) [0..<r]))
                   [0..<prod_list out_dims]))
         else None)"

definition reshape_nd :: "ndarray \<Rightarrow> ndarray \<Rightarrow> ndarray option" where
  "reshape_nd a shape =
     (if length (dims shape) = 1 \<and> list_all (\<lambda>x. 0 \<le> x) (flat shape) \<and>
         prod_list (map nat (flat shape)) = length (flat a)
      then Some (NDArray (map nat (flat shape)) (flat a))
      else None)"

definition mm_flat :: "nat \<Rightarrow> nat \<Rightarrow> nat \<Rightarrow> int list \<Rightarrow> int list \<Rightarrow> int list" where
  "mm_flat m k n xs ys =
     concat (map (\<lambda>i. map (\<lambda>j. sum_list (map (\<lambda>l. xs ! (i * k + l) * ys ! (l * n + j)) [0..<k]))
                        [0..<n])
               [0..<m])"

definition matmul_nd :: "ndarray \<Rightarrow> ndarray \<Rightarrow> ndarray option" where
  "matmul_nd a b =
     (if length (dims a) = 2 \<and> length (dims b) = 2 \<and> dims a ! 1 = dims b ! 0
      then Some (NDArray [dims a ! 0, dims b ! 1]
                   (mm_flat (dims a ! 0) (dims a ! 1) (dims b ! 1) (flat a) (flat b)))
      else None)"

definition batch_matmul_nd :: "ndarray \<Rightarrow> ndarray \<Rightarrow> ndarray option" where
  "batch_matmul_nd a b =
     (let r = length (dims a)
      in if 2 \<le> r \<and> length (dims b) = r \<and> take (r - 2) (dims a) = take (r - 2) (dims b) \<and>
            dims a ! (r - 1) = dims b ! (r - 2)
         then
           let batch = take (r - 2) (dims a);
               m = dims a ! (r - 2); k = dims a ! (r - 1); n = dims b ! (r - 1)
           in Some (NDArray (batch @ [m, n])
                (concat (map (\<lambda>t. mm_flat m k n
                                    (take (m * k) (drop (t * (m * k)) (flat a)))
                                    (take (k * n) (drop (t * (k * n)) (flat b))))
                           [0..<prod_list batch])))
         else None)"

text \<open>
  Executing a node: \<open>env\<close> feeds the placeholders. A quotient is produced only where the
  division is exact, the elements being integers.
\<close>

definition lift2 ::
  "(ndarray \<Rightarrow> ndarray \<Rightarrow> ndarray option) \<Rightarrow> ndarray option \<Rightarrow> ndarray option \<Rightarrow> ndarray option" where
  "lift2 f x y =
     (case x of None \<Rightarrow> None | Some a \<Rightarrow> (case y of None \<Rightarrow> None | Some b \<Rightarrow> f a b))"

definition exact_div :: "ndarray \<Rightarrow> ndarray \<Rightarrow> ndarray option" where
  "exact_div a b =
     (case elementwise (\<lambda>x y. if y \<noteq> 0 \<and> y dvd x then 1 else 0) a b of
        None \<Rightarrow> None
      | Some ok \<Rightarrow> if list_all (\<lambda>v. v = 1) (flat ok) then elementwise (div) a b else None)"

fun eval :: "(string \<Rightarrow> ndarray) \<Rightarrow> tensor \<Rightarrow> ndarray option" where
  "eval env (Placeholder n d) = Some (env n)"
| "eval env (Const d v) = Some v"
| "eval env (Cast x d) = (case eval env x of None \<Rightarrow> None | Some a \<Rightarrow> cast_nd (dtype x) d a)"
| "eval env (Maximum x y) = lift2 (elementwise max) (eval env x) (eval env y)"
| "eval env (Minimum x y) = lift2 (elementwise min) (eval env x) (eval env y)"
| "eval env (RealDiv x y) = lift2 exact_div (eval env x) (eval env y)"
| "eval env (Add x y) = lift2 (elementwise (+)) (eval env x) (eval env y)"
| "eval env (Sub x y) = lift2 (elementwise (-)) (eval env x) (eval env y)"
| "eval env (Mul x y) = lift2 (elementwise (*)) (eval env x) (eval env y)"
| "eval env (GreaterEqual x y) =
     lift2 (elementwise (\<lambda>u v. of_bool_int (u \<ge> v))) (eval env x) (eval env y)"
| "eval env (Less x y) =
     lift2 (elementwise (\<lambda>u v. of_bool_int (u < v))) (eval env x) (eval env y)"
| "eval env (Range s l d) =
     (case eval env s of None \<Rightarrow> None | Some a \<Rightarrow> lift2 (range_nd a) (eval env l) (eval env d))"
| "eval env (Rank x) = map_option (\<lambda>a. scalar (int (length (dims a)))) (eval env x)"
| "eval env (Shape x) = map_option (\<lambda>a. vec (map int (dims a))) (eval env x)"
| "eval env (Size x) = map_option (\<lambda>a. scalar (int (prod_list (dims a)))) (eval env x)"
| "eval env (ListDiff x y) = lift2 listdiff_nd (eval env x) (eval env y)"
| "eval env (Gather p i) = lift2 gather_nd (eval env p) (eval env i)"
| "eval env (Prod x axes keep) =
     lift2 (\<lambda>a ax. prod_nd a ax keep) (eval env x) (eval env axes)"
| "eval env (Concat d x y) =
     (case eval env d of None \<Rightarrow> None | Some a \<Rightarrow> lift2 (concat_nd a) (eval env x) (eval env y))"
| "eval env (Pack x y) = lift2 pack_nd (eval env x) (eval env y)"
| "eval env (StridedSlice x i) =
     (case eval env x of None \<Rightarrow> None | Some a \<Rightarrow> strided_slice_nd a i)"
| "eval env (Transpose x p) = lift2 transpose_nd (eval env x) (eval env p)"
| "eval env (Reshape x s) = lift2 reshape_nd (eval env x) (eval env s)"
| "eval env (MatMul x y) = lift2 matmul_nd (eval env x) (eval env y)"
| "eval env (BatchMatMul x y) = lift2 batch_matmul_nd (eval env x) (eval env y)"
| "eval env (SparseMatMul x y) = lift2 matmul_nd (eval env x) (eval env y)"

text \<open>Building a graph and executing it: a build-time exception leaves nothing to execute.\<close>

definition run :: "(string \<Rightarrow> ndarray) \<Rightarrow> error + tensor \<Rightarrow> ndarray option" where
  "run env r = (case r of Inl e \<Rightarrow> None | Inr t \<Rightarrow> eval env t)"

text \<open>
  The engine's shape inference is sound for an execution when every static shape it reports
  agrees with the value the node then has.
\<close>

definition shape_agrees :: "static_shape \<Rightarrow> nat list \<Rightarrow> bool" where
  "shape_agrees s ds =
     (case s of None \<Rightarrow> True
      | Some es \<Rightarrow> list_all2 (\<lambda>e d. e = None \<or> e = Some d) es ds)"

definition sound :: "(tensor \<Rightarrow> static_shape) \<Rightarrow> (string \<Rightarrow> ndarray) \<Rightarrow> bool" where
  "sound shp env =
     (\<forall>t. case eval env t of None \<Rightarrow> True | Some v \<Rightarrow> shape_agrees (shp t) (dims v))"

section \<open>Reference functions\<close>




text \<open>The product of all elements of a value, which is what reducing over every axis gives.\<close>

definition all_prod :: "ndarray \<Rightarrow> int" where
  "all_prod v = prod_list (map (\<lambda>j. flat v ! j) [0..<prod_list (dims v)])"

text \<open>
  The reshape plan of the spec, on run-time values: contraction axes counted from the end
  when negative; free axes are the others, in their original order; the operand is
  transposed to free-then-contracted axes (contracted-then-free for the right operand) and
  reshaped to the two products of sizes; the free sizes are returned with it. Both branches
  of \<^verbatim>\<open>_tensordot_reshape\<close> are compared with this plan below.
\<close>

definition normalize_axes :: "nat \<Rightarrow> int list \<Rightarrow> int list" where
  "normalize_axes r axs = map (\<lambda>x. if 0 \<le> x then x else x + int r) axs"

definition free_axes :: "nat \<Rightarrow> int list \<Rightarrow> nat list" where
  "free_axes r axs = filter (\<lambda>i. int i \<notin> set (normalize_axes r axs)) [0..<r]"

definition free_dims_value :: "ndarray \<Rightarrow> int list \<Rightarrow> nat list" where
  "free_dims_value v axs = map (\<lambda>i. dims v ! i) (free_axes (length (dims v)) axs)"

definition plan_value :: "ndarray \<Rightarrow> int list \<Rightarrow> bool \<Rightarrow> ndarray option" where
  "plan_value v axs flipped =
     (let r = length (dims v);
          axes = normalize_axes r axs;
          free = free_axes r axs;
          prod_free = prod_list (map (\<lambda>i. int (dims v ! i)) free);
          prod_axes = prod_list (map (\<lambda>x. int (dims v ! nat x)) axes);
          perm = (if flipped then axes @ map int free else map int free @ axes);
          new_shape = (if flipped then [prod_axes, prod_free] else [prod_free, prod_axes])
      in case transpose_nd v (vec perm) of
           None \<Rightarrow> None
         | Some t \<Rightarrow> reshape_nd t (vec new_shape))"

text \<open>Axes are valid for a rank when, once normalized, they are positions of the shape.\<close>

definition valid_axes :: "nat \<Rightarrow> int list \<Rightarrow> bool" where
  "valid_axes r axs = list_all (\<lambda>x. 0 \<le> x \<and> x < int r) (normalize_axes r axs)"

text \<open>
  The contraction of the spec: multiply the two planned matrices and reshape the product to
  the free sizes of the left operand followed by those of the right.
\<close>

definition tensordot_value :: "ndarray \<Rightarrow> ndarray \<Rightarrow> int list \<Rightarrow> int list \<Rightarrow> ndarray option" where
  "tensordot_value va vb a_axes b_axes =
     (case lift2 matmul_nd (plan_value va a_axes False) (plan_value vb b_axes True) of
        None \<Rightarrow> None
      | Some ab \<Rightarrow>
          reshape_nd ab
            (vec (map int (free_dims_value va a_axes @ free_dims_value vb b_axes))))"



section \<open>True division: promotion and errors\<close>

lemma map_of_TRUEDIV_TABLE:
  "map_of TRUEDIV_TABLE d =
     (if d \<in> {DT_uint8, DT_int8, DT_uint16, DT_int16} then Some (Some DT_float32)
      else if d \<in> {DT_int32, DT_int64} then Some (Some DT_float64)
      else if d \<in> {DT_float16, DT_float32, DT_float64, DT_complex64, DT_complex128}
      then Some None
      else None)"
  by (cases d) (simp_all add: TRUEDIV_TABLE_def)

text \<open>
  Claim C3, as stated, promises that operands of any floating-point dtype are divided
  without promotion. bfloat16, the floating-point dtype of \<^verbatim>\<open>to_bfloat16\<close> and \<^verbatim>\<open>matmul\<close>,
  has no entry in the table: dividing two bfloat16 tensors raises the invalid-dtype error
  instead of building the quotient.
\<close>

theorem truediv_bfloat16_counterexample:
  "truediv_python3 (Placeholder ''x'' DT_bfloat16) (Placeholder ''y'' DT_bfloat16)
     = Inl UnsupportedType \<and>
   truediv_python3 (Placeholder ''x'' DT_bfloat16) (Placeholder ''y'' DT_bfloat16)
     \<noteq> Inr (RealDiv (Placeholder ''x'' DT_bfloat16) (Placeholder ''y'' DT_bfloat16))"
  by (simp add: truediv_python3_def base_dtype_def map_of_TRUEDIV_TABLE)

text \<open>
  Claim C3, amended: for operands of one dtype \<open>d\<close>, an 8- or 16-bit integer \<open>d\<close> has both
  operands cast to float32 before the division, a 32- or 64-bit integer \<open>d\<close> has both cast
  to float64, and for \<open>d\<close> one of float16, float32, float64, complex64, complex128 the
  operands are divided as they are and the quotient has dtype \<open>d\<close>.
\<close>

theorem truediv_promotion:
  "dtype x = d \<and> dtype y = d \<longrightarrow>
     (d \<in> {DT_uint8, DT_int8, DT_uint16, DT_int16} \<longrightarrow>
        truediv_python3 x y = Inr (RealDiv (Cast x DT_float32) (Cast y DT_float32))) \<and>
     (d \<in> {DT_int32, DT_int64} \<longrightarrow>
        truediv_python3 x y = Inr (RealDiv (Cast x DT_float64) (Cast y DT_float64))) \<and>
     (d \<in> {DT_float16, DT_float32, DT_float64, DT_complex64, DT_complex128} \<longrightarrow>
        truediv_python3 x y = Inr (RealDiv x y) \<and> dtype (RealDiv x y) = d)"
  by (auto simp add: truediv_python3_def base_dtype_def map_of_TRUEDIV_TABLE cast_def)

theorem truediv_promotion_witness:
  "truediv_python3 (Placeholder ''x'' DT_int16) (Const DT_int16 (scalar 3))
     = Inr (RealDiv (Cast (Placeholder ''x'' DT_int16) DT_float32)
              (Cast (Const DT_int16 (scalar 3)) DT_float32)) \<and>
   truediv_python3 (Placeholder ''x'' DT_int64) (Const DT_int64 (scalar 3))
     = Inr (RealDiv (Cast (Placeholder ''x'' DT_int64) DT_float64)
              (Cast (Const DT_int64 (scalar 3)) DT_float64)) \<and>
   truediv_python3 (Placeholder ''x'' DT_complex64) (Const DT_complex64 (scalar 3))
     = Inr (RealDiv (Placeholder ''x'' DT_complex64) (Const DT_complex64 (scalar 3)))"
  using truediv_promotion [of "Placeholder ''x'' DT_int16" DT_int16 "Const DT_int16 (scalar 3)"]
    truediv_promotion [of "Placeholder ''x'' DT_int64" DT_int64 "Const DT_int64 (scalar 3)"]
    truediv_promotion [of "Placeholder ''x'' DT_complex64" DT_complex64
      "Const DT_complex64 (scalar 3)"]
  by simp

text \<open>
  Claim C8: true division raises the type-mismatch error whenever the operand dtypes
  differ, the unsupported-type error whenever the common dtype has no entry in the table,
  and returns a tensor whenever the common dtype has an entry.
\<close>

theorem truediv_errors:
  "(dtype x \<noteq> dtype y \<longrightarrow> truediv_python3 x y = Inl TypeMismatch) \<and>
   (dtype x = dtype y \<and> map_of TRUEDIV_TABLE (dtype x) = None \<longrightarrow>
      truediv_python3 x y = Inl UnsupportedType) \<and>
   (dtype x = dtype y \<and> map_of TRUEDIV_TABLE (dtype x) \<noteq> None \<longrightarrow>
      (\<exists>t. truediv_python3 x y = Inr t))"
  by (auto simp add: truediv_python3_def base_dtype_def split: option.splits)

theorem truediv_errors_witness:
  "truediv_python3 (Placeholder ''x'' DT_int32) (Placeholder ''y'' DT_float32)
     = Inl TypeMismatch \<and>
   truediv_python3 (Placeholder ''x'' DT_bool) (Placeholder ''y'' DT_bool)
     = Inl UnsupportedType \<and>
   (\<exists>t. truediv_python3 (Placeholder ''x'' DT_uint8) (Placeholder ''y'' DT_uint8) = Inr t)"
  using truediv_errors [of "Placeholder ''x'' DT_int32" "Placeholder ''y'' DT_float32"]
    truediv_errors [of "Placeholder ''x'' DT_bool" "Placeholder ''y'' DT_bool"]
    truediv_errors [of "Placeholder ''x'' DT_uint8" "Placeholder ''y'' DT_uint8"]
  by (simp add: map_of_TRUEDIV_TABLE)

section \<open>Reduction axes\<close>

text \<open>
  Claim C5: with neither axis argument given, a dense tensor of statically known rank \<open>n\<close>,
  and a sparse tensor whose dense shape has the static shape \<open>[n]\<close>, resolve to the int32
  constant \<open>[0, ..., n - 1]\<close>; an axis given without the legacy argument is returned as it
  is.
\<close>

theorem reduction_dims_default:
  "(ndims (get_shape shp t) = Some n \<longrightarrow>
      ReductionDims shp (DenseInput t) None None
        = Inr (AxisTensor (Const DT_int32 (vec (map int [0..<n]))))) \<and>
   (get_shape shp (sp_dense_shape s) = Some [Some n] \<longrightarrow>
      ReductionDims shp (SparseInput s) None None
        = Inr (AxisTensor (Const DT_int32 (vec (map int [0..<n]))))) \<and>
   ReductionDims shp x (Some axis) None = Inr axis"
  by (simp add: ReductionDims_def arange_def constant_int32_list_def is_fully_defined_def
      as_list_def)

theorem reduction_dims_default_witness:
  "ReductionDims (\<lambda>t. None) (DenseInput (Const DT_float32 (NDArray [2, 3] [1, 2, 3, 4, 5, 6])))
     None None
     = Inr (AxisTensor (Const DT_int32 (vec [0, 1]))) \<and>
   ReductionDims (\<lambda>t. Some [Some 3])
     (SparseInput \<lparr>sp_indices = Placeholder ''i'' DT_int64,
                   sp_values = Placeholder ''v'' DT_float32,
                   sp_dense_shape = Placeholder ''s'' DT_int64\<rparr>) None None
     = Inr (AxisTensor (Const DT_int32 (vec [0, 1, 2]))) \<and>
   ReductionDims (\<lambda>t. None) (DenseInput (Placeholder ''x'' DT_float32)) (Some (AxisList [1, 0]))
     None
     = Inr (AxisList [1, 0])"
proof -
  have u2: "[0..<2] = [0, Suc 0]" and u3: "[0..<3] = [0, Suc 0, 2]"
    by (simp_all add: upt_rec)
  show ?thesis
    using reduction_dims_default
      [where shp = "\<lambda>t. None" and t = "Const DT_float32 (NDArray [2, 3] [1, 2, 3, 4, 5, 6])"
         and n = 2]
      reduction_dims_default
      [where shp = "\<lambda>t. Some [Some 3]" and n = 3
         and s = "\<lparr>sp_indices = Placeholder ''i'' DT_int64,
                   sp_values = Placeholder ''v'' DT_float32,
                   sp_dense_shape = Placeholder ''s'' DT_int64\<rparr>"]
      reduction_dims_default
      [where shp = "\<lambda>t. None" and x = "DenseInput (Placeholder ''x'' DT_float32)"
         and axis = "AxisList [1, 0]"]
    by (simp add: get_shape_def ndims_def u2 u3)
qed

text \<open>
  Claim C9: when both the axis and the legacy reduction-indices argument are given, the
  resolver raises the conflicting-arguments error, whatever the two values are.
\<close>

theorem reduction_dims_conflict:
  "ReductionDims shp x (Some axis) (Some reduction_indices) = Inl ConflictingArguments"
  by (simp add: ReductionDims_def)

section \<open>Casts that change nothing\<close>



lemma cast_sparse_same_dtype:
  "base_dtype (dtype (sp_values x)) = base_dtype d \<Longrightarrow> cast_sparse x d = x"
  by (simp add: cast_def cast_sparse_def base_dtype_def Let_def)

section \<open>Malformed contraction axes\<close>

lemma range_op_error: "range_op s l d = Inl e \<Longrightarrow> e = AssertionError"
  by (auto simp add: range_op_def Let_def split: option.splits if_splits prod.splits)

lemma reduce_prod_error: "reduce_prod shp x None k None = Inl e \<Longrightarrow> e = AssertionError"
  by (auto simp add: reduce_prod_def ReductionDims_def map_sum_def
      split: sum.splits option.splits dest: range_op_error)

lemma tensordot_reshape_error:
  "tensordot_reshape shp a ax f = Inl e \<Longrightarrow> e = IndexError \<or> e = AssertionError"
  unfolding tensordot_reshape_def Let_def
  by (auto split: if_splits option.splits sum.splits
      dest: range_op_error reduce_prod_error)

lemma tensordot_axes_error:
  "tensordot_axes shp a axes = Inl e \<Longrightarrow>
     (e = InvalidAxisCount \<and> (\<exists>n. axes = AxesInt n \<and> n < 1)) \<or>
     (e = InvalidAxesLength \<and>
        (\<exists>l. axes = AxesList l \<and> length l = 2 \<and> length (l ! 0) \<noteq> length (l ! 1))) \<or>
     e = AxesNotPair \<or> e = AssertionError"
  unfolding tensordot_axes_def Let_def
  by (cases axes) (auto split: if_splits option.splits sum.splits dest: range_op_error)

lemma tensordot_error:
  "tensordot shp a b axes = Inl e \<Longrightarrow>
     tensordot_axes shp a axes = Inl e \<or> e = IndexError \<or> e = AssertionError"
  unfolding tensordot_def Let_def
  by (auto split: sum.splits prod.splits dims_val.splits dest: tensordot_reshape_error)

lemma tensordot_axes_count: "n < 1 \<Longrightarrow> tensordot shp a b (AxesInt n) = Inl InvalidAxisCount"
  by (simp add: tensordot_def tensordot_axes_def)

lemma tensordot_axes_length:
  "length l = 2 \<Longrightarrow> length (l ! 0) \<noteq> length (l ! 1)
     \<Longrightarrow> tensordot shp a b (AxesList l) = Inl InvalidAxesLength"
  by (simp add: tensordot_def tensordot_axes_def)

text \<open>
  Claim C7: \<^verbatim>\<open>tensordot\<close> raises the axes-length error exactly when the axes are a pair of
  lists of different lengths, and the axis-count error exactly when the axes are a single
  integer below 1.
\<close>

theorem tensordot_axes_errors:
  "(tensordot shp a b axes = Inl InvalidAxesLength
      \<longleftrightarrow> (\<exists>l. axes = AxesList l \<and> length l = 2 \<and> length (l ! 0) \<noteq> length (l ! 1))) \<and>
   (tensordot shp a b axes = Inl InvalidAxisCount \<longleftrightarrow> (\<exists>n. axes = AxesInt n \<and> n < 1))"
proof (intro conjI iffI)
  assume "tensordot shp a b axes = Inl InvalidAxesLength"
  then have "tensordot_axes shp a axes = Inl InvalidAxesLength"
    using tensordot_error by fastforce
  then show "\<exists>l. axes = AxesList l \<and> length l = 2 \<and> length (l ! 0) \<noteq> length (l ! 1)"
    using tensordot_axes_error by fastforce
next
  assume "tensordot shp a b axes = Inl InvalidAxisCount"
  then have "tensordot_axes shp a axes = Inl InvalidAxisCount"
    using tensordot_error by fastforce
  then show "\<exists>n. axes = AxesInt n \<and> n < 1"
    using tensordot_axes_error by fastforce
next
  assume "\<exists>l. axes = AxesList l \<and> length l = 2 \<and> length (l ! 0) \<noteq> length (l ! 1)"
  then show "tensordot shp a b axes = Inl InvalidAxesLength"
    using tensordot_axes_length by blast
next
  assume "\<exists>n. axes = AxesInt n \<and> n < 1"
  then show "tensordot shp a b axes = Inl InvalidAxisCount"
    using tensordot_axes_count by blast
qed

theorem tensordot_axes_errors_witness:
  "tensordot (\<lambda>t. None) (Placeholder ''a'' DT_float32) (Placeholder ''b'' DT_float32)
     (AxesList [[0, 1], [0]]) = Inl InvalidAxesLength \<and>
   tensordot (\<lambda>t. None) (Placeholder ''a'' DT_float32) (Placeholder ''b'' DT_float32)
     (AxesInt 0) = Inl InvalidAxisCount"
  using tensordot_axes_errors [of "\<lambda>t. None" "Placeholder ''a'' DT_float32"
      "Placeholder ''b'' DT_float32" "AxesList [[0, 1], [0]]"]
    tensordot_axes_errors [of "\<lambda>t. None" "Placeholder ''a'' DT_float32"
      "Placeholder ''b'' DT_float32" "AxesInt 0"]
  by simp

section \<open>Kernel lemmas: broadcasting\<close>

lemma length_unravel: "length (unravel s k) = length s"
  by (induction s arbitrary: k) simp_all

lemma ravel_unravel: "k < prod_list s \<Longrightarrow> ravel s (unravel s k) = k"
proof (induction s arbitrary: k)
  case Nil
  then show ?case by simp
next
  case (Cons d ds)
  from Cons.prems have pos: "0 < prod_list ds"
    by (cases "prod_list ds = 0") simp_all
  then have "k mod prod_list ds < prod_list ds" by simp
  then have "ravel ds (unravel ds (k mod prod_list ds)) = k mod prod_list ds"
    by (rule Cons.IH)
  then show ?case by simp
qed

lemma unravel_bounded: "k < prod_list s \<Longrightarrow> list_all2 (\<lambda>i d. i < d) (unravel s k) s"
proof (induction s arbitrary: k)
  case Nil
  then show ?case by simp
next
  case (Cons d ds)
  from Cons.prems have pos: "0 < prod_list ds"
    by (cases "prod_list ds = 0") simp_all
  have "k div prod_list ds < d"
    using Cons.prems pos by (simp add: less_mult_imp_div_less mult.commute)
  moreover have "list_all2 (\<lambda>i d. i < d) (unravel ds (k mod prod_list ds)) ds"
    using pos by (intro Cons.IH) simp
  ultimately show ?case by simp
qed

lemma clip_bounded:
  "list_all2 (\<lambda>i d. i < d) js s \<Longrightarrow> map2 (\<lambda>d i. if d = Suc 0 then 0 else i) s js = js"
  by (induction js s rule: list_all2_induct) auto

lemma bcast_index_same: "k < prod_list s \<Longrightarrow> bcast_index s (unravel s k) = k"
  by (simp add: bcast_index_def clip_bounded unravel_bounded ravel_unravel)

lemma ravel_ones: "ravel (replicate r (Suc 0)) (map2 (\<lambda>d i. if d = Suc 0 then 0 else i) (replicate r (Suc 0)) js) = 0"
proof (induction r arbitrary: js)
  case 0
  then show ?case by simp
next
  case (Suc r)
  then show ?case by (cases js) simp_all
qed

lemma bcast_index_ones: "bcast_index (replicate r (Suc 0)) js = 0"
  by (simp add: bcast_index_def ravel_ones)

lemma broadcast_shape_scalar: "broadcast_shape s [] = Some s"
proof -
  have "list_all2 (\<lambda>x y. x = y \<or> x = 1 \<or> y = 1) s (replicate (length s) 1)"
    by (simp add: list_all2_conv_all_nth)
  moreover have "map2 (\<lambda>x y. if x = 1 then y else x) s (replicate (length s) 1) = s"
    by (rule nth_equalityI) simp_all
  ultimately show ?thesis
    by (simp add: broadcast_shape_def pad_shape_def)
qed

lemma broadcast_shape_same: "broadcast_shape s s = Some s"
proof -
  have "map2 (\<lambda>x y. if x = 1 then y else x) s s = s"
    by (rule nth_equalityI) simp_all
  then show ?thesis
    by (simp add: broadcast_shape_def pad_shape_def list_all2_conv_all_nth)
qed

lemma elementwise_scalar:
  assumes "length xs = prod_list s"
  shows "elementwise f (NDArray s xs) (scalar y) = Some (NDArray s (map (\<lambda>x. f x y) xs))"
proof -
  have "map (\<lambda>k. f (xs ! bcast_index s (unravel s k)) y) [0..<prod_list s]
          = map (\<lambda>x. f x y) xs"
    using assms by (intro nth_equalityI) (simp_all add: bcast_index_same)
  then show ?thesis
    by (simp add: elementwise_def scalar_def broadcast_shape_scalar pad_shape_def
        bcast_index_ones Let_def)
qed

lemma elementwise_same:
  assumes "length xs = prod_list s" and "length ys = prod_list s"
  shows "elementwise f (NDArray s xs) (NDArray s ys) = Some (NDArray s (map2 f xs ys))"
proof -
  have "map (\<lambda>k. f (xs ! bcast_index s (unravel s k)) (ys ! bcast_index s (unravel s k)))
          [0..<prod_list s] = map2 f xs ys"
    using assms by (intro nth_equalityI) (simp_all add: bcast_index_same)
  then show ?thesis
    by (simp add: elementwise_def broadcast_shape_same pad_shape_def Let_def)
qed


section \<open>Saturating cast\<close>




lemma dtype_clamped:
  "dtype (if c1 then Minimum (if c2 then Maximum v k1 else v) k2
          else (if c2 then Maximum v k1 else v)) = dtype v"
  by simp







section \<open>Kernel lemmas: static shapes, ranges, products\<close>

lemma sound_get_shape:
  assumes "sound shp env" and "eval env t = Some v"
  shows "shape_agrees (get_shape shp t) (dims v)"
proof -
  have "case eval env t of None \<Rightarrow> True | Some v \<Rightarrow> shape_agrees (shp t) (dims v)"
    using assms(1) unfolding sound_def by blast
  with assms(2) have "shape_agrees (shp t) (dims v)" by simp
  with assms(2) show ?thesis
    by (cases t) (auto simp add: get_shape_def shape_agrees_def list_all2_conv_all_nth)
qed

lemma sound_ndims:
  "sound shp env \<Longrightarrow> eval env t = Some v \<Longrightarrow> ndims (get_shape shp t) = Some n
     \<Longrightarrow> n = length (dims v)"
  by (drule (1) sound_get_shape)
    (auto simp add: shape_agrees_def ndims_def dest: list_all2_lengthD)

lemma known_dims:
  "list_all2 (\<lambda>e d. e = None \<or> e = Some d) es ds \<Longrightarrow> list_all (\<lambda>e. e \<noteq> None) es
     \<Longrightarrow> map the es = ds"
  by (induction es ds rule: list_all2_induct) auto

lemma sound_as_list:
  "sound shp env \<Longrightarrow> eval env t = Some v \<Longrightarrow> is_fully_defined (get_shape shp t)
     \<Longrightarrow> as_list (get_shape shp t) = dims v"
  by (drule (1) sound_get_shape)
    (auto simp add: shape_agrees_def is_fully_defined_def as_list_def known_dims
      split: option.splits)

lemma range_op_int32:
  "dtype s = DT_int32 \<Longrightarrow> dtype l = DT_int32 \<Longrightarrow> dtype d = DT_int32
     \<Longrightarrow> range_op s (Some l) d = Inr (Range s l d)"
  by (simp add: range_op_def dtype_hierarchy_def max_by_index_def hierarchy_index_def
      cast_def base_dtype_def)

lemma range_op_int32_limit:
  "dtype l = DT_int32 \<Longrightarrow> dtype d = DT_int32
     \<Longrightarrow> range_op l None d = Inr (Range (constant_int32 0) l d)"
  by (simp add: range_op_def dtype_hierarchy_def max_by_index_def hierarchy_index_def
      cast_def base_dtype_def constant_int32_def)

lemma range_nd_step1:
  "a \<le> b \<Longrightarrow> range_nd (scalar a) (scalar b) (scalar 1)
     = Some (vec (map (\<lambda>i. a + int i) [0..<nat (b - a)]))"
  by (simp add: range_nd_def scalar_def)

lemma range_nd_from0:
  "range_nd (scalar 0) (scalar (int n)) (scalar 1) = Some (vec (map int [0..<n]))"
  by (simp add: range_nd_step1)

lemma prod_nd_all:
  "prod_nd v (vec (map int [0..<length (dims v)])) False = Some (scalar (all_prod v))"
proof -
  have ax: "map (\<lambda>x. nat (if x < 0 then x + int (length (dims v)) else x))
              (map int [0..<length (dims v)]) = [0..<length (dims v)]"
    by (intro nth_equalityI) simp_all
  have ok: "list_all (\<lambda>x. - int (length (dims v)) \<le> x \<and> x < int (length (dims v)))
              (map int [0..<length (dims v)])"
    by (simp add: list_all_iff)
  show ?thesis
    unfolding prod_nd_def Let_def
    by (simp add: vec_def ax ok scalar_def all_prod_def)
qed

lemma eval_reduce_prod:
  assumes "sound shp env"
  shows "\<exists>t. reduce_prod shp x None False None = Inr t \<and>
             eval env t = map_option (\<lambda>v. scalar (all_prod v)) (eval env x)"
proof (cases "ndims (get_shape shp x)")
  case None
  then have "reduce_prod shp x None False None
               = Inr (Prod x (Range (constant_int32 0) (Rank x) (constant_int32 1)) False)"
    by (simp add: reduce_prod_def ReductionDims_def array_ops_rank_def range_op_int32
        constant_int32_def axis_tensor_def)
  moreover have "eval env (Prod x (Range (constant_int32 0) (Rank x) (constant_int32 1)) False)
                   = map_option (\<lambda>v. scalar (all_prod v)) (eval env x)"
    by (cases "eval env x")
      (simp_all add: lift2_def constant_int32_def range_nd_from0 prod_nd_all)
  ultimately show ?thesis by simp
next
  case (Some n)
  then have rp: "reduce_prod shp x None False None = Inr (Prod x (arange n) False)"
    by (simp add: reduce_prod_def ReductionDims_def axis_tensor_def)
  have "eval env (Prod x (arange n) False)
          = map_option (\<lambda>v. scalar (all_prod v)) (eval env x)"
  proof (cases "eval env x")
    case None
    then show ?thesis by (simp add: lift2_def)
  next
    case (Some v)
    with assms \<open>ndims (get_shape shp x) = Some n\<close> have "n = length (dims v)"
      by (intro sound_ndims)
    with Some show ?thesis
      by (simp add: lift2_def arange_def constant_int32_list_def prod_nd_all)
  qed
  with rp show ?thesis by simp
qed

lemma mm_flat_take:
  "mm_flat m k n (take (m * k) xs) (take (k * n) ys) = mm_flat m k n xs ys"
proof -
  have "\<And>i l. i < m \<Longrightarrow> l < k \<Longrightarrow> i * k + l < m * k"
  proof -
    fix i l :: nat
    assume "i < m" "l < k"
    then have "i * k + l < i * k + k" by simp
    also have "\<dots> = Suc i * k" by simp
    also have "\<dots> \<le> m * k" using \<open>i < m\<close> by (intro mult_le_mono1) simp
    finally show "i * k + l < m * k" .
  qed
  moreover have "\<And>l j. l < k \<Longrightarrow> j < n \<Longrightarrow> l * n + j < k * n"
  proof -
    fix l j :: nat
    assume "l < k" "j < n"
    then have "l * n + j < l * n + n" by simp
    also have "\<dots> = Suc l * n" by simp
    also have "\<dots> \<le> k * n" using \<open>l < k\<close> by (intro mult_le_mono1) simp
    finally show "l * n + j < k * n" .
  qed
  ultimately show ?thesis
    unfolding mm_flat_def
    by (intro arg_cong [where f = concat] map_cong refl arg_cong [where f = sum_list]) simp_all
qed

lemma batch_matmul_rank2:
  "length (dims a) = 2 \<Longrightarrow> batch_matmul_nd a b = matmul_nd a b"
  by (simp add: batch_matmul_nd_def matmul_nd_def mm_flat_take Let_def)

lemma eval_matmul:
  assumes "\<And>v. eval env x = Some v \<Longrightarrow> length (dims v) = 2"
  shows "eval env (matmul shp x y) = lift2 matmul_nd (eval env x) (eval env y)"
proof (cases "eval env x")
  case None
  then show ?thesis by (simp add: matmul_def Let_def lift2_def)
next
  case (Some v)
  with assms have "length (dims v) = 2" by simp
  with Some show ?thesis
    by (cases "eval env y") (simp_all add: matmul_def Let_def lift2_def batch_matmul_rank2)
qed

section \<open>Kernel lemmas: the nodes of the dynamic planner\<close>

lemma elementwise_vec_scalar:
  "elementwise f (vec xs) (scalar y) = Some (vec (map (\<lambda>x. f x y) xs))"
  unfolding vec_def by (simp add: elementwise_scalar)

lemma elementwise_vec_vec:
  "length xs = length ys \<Longrightarrow> elementwise f (vec xs) (vec ys) = Some (vec (map2 f xs ys))"
  unfolding vec_def by (simp add: elementwise_same)

lemma wrap_signed_bool: "wrap_signed 32 (of_bool_int p) = of_bool_int p"
  by (simp add: wrap_signed_def of_bool_int_def)

lemma cast_nd_bool_int32:
  "cast_nd DT_bool DT_int32 (vec (map (\<lambda>x. of_bool_int (P x)) xs))
     = Some (vec (map (\<lambda>x. of_bool_int (P x)) xs))"
  by (simp add: cast_nd_def vec_def wrap_signed_bool comp_def)

lemma normalize_arith:
  "map2 (+) (map2 (*) (map (\<lambda>x. of_bool_int (0 \<le> x)) axs) axs)
     (map2 (*) (map (\<lambda>x. of_bool_int (x < 0)) axs) (map (\<lambda>x. x + r) axs))
   = map (\<lambda>x. if 0 \<le> x then x else x + r) axs"
  by (induction axs) (simp_all add: of_bool_int_def)

lemma eval_normalize:
  assumes "eval env a = Some v" and "eval env t = Some (vec axs)"
  shows "eval env (Add (Mul (cast (GreaterEqual t (constant_int32 0)) DT_int32) t)
                       (Mul (cast (Less t (constant_int32 0)) DT_int32) (Add t (Rank a))))
           = Some (vec (normalize_axes (length (dims v)) axs))"
proof -
  have ge: "eval env (cast (GreaterEqual t (constant_int32 0)) DT_int32)
              = Some (vec (map (\<lambda>x. of_bool_int (0 \<le> x)) axs))"
    using assms(2)
    by (simp add: cast_def base_dtype_def constant_int32_def lift2_def elementwise_vec_scalar
        cast_nd_bool_int32)
  have lt: "eval env (cast (Less t (constant_int32 0)) DT_int32)
              = Some (vec (map (\<lambda>x. of_bool_int (x < 0)) axs))"
    using assms(2)
    by (simp add: cast_def base_dtype_def constant_int32_def lift2_def elementwise_vec_scalar
        cast_nd_bool_int32)
  have shifted: "eval env (Add t (Rank a)) = Some (vec (map (\<lambda>x. x + int (length (dims v))) axs))"
    using assms by (simp add: lift2_def elementwise_vec_scalar)
  have "eval env (Mul (cast (GreaterEqual t (constant_int32 0)) DT_int32) t)
          = lift2 (elementwise (*)) (eval env (cast (GreaterEqual t (constant_int32 0)) DT_int32))
              (eval env t)"
    by simp
  then have m1: "eval env (Mul (cast (GreaterEqual t (constant_int32 0)) DT_int32) t)
          = Some (vec (map2 (*) (map (\<lambda>x. of_bool_int (0 \<le> x)) axs) axs))"
    unfolding ge assms(2) by (simp add: lift2_def elementwise_vec_vec)
  have "eval env (Mul (cast (Less t (constant_int32 0)) DT_int32) (Add t (Rank a)))
          = lift2 (elementwise (*)) (eval env (cast (Less t (constant_int32 0)) DT_int32))
              (eval env (Add t (Rank a)))"
    by simp
  then have m2: "eval env (Mul (cast (Less t (constant_int32 0)) DT_int32) (Add t (Rank a)))
          = Some (vec (map2 (*) (map (\<lambda>x. of_bool_int (x < 0)) axs)
                         (map (\<lambda>x. x + int (length (dims v))) axs)))"
    unfolding lt shifted by (simp add: lift2_def elementwise_vec_vec)
  have "eval env (Add (Mul (cast (GreaterEqual t (constant_int32 0)) DT_int32) t)
                       (Mul (cast (Less t (constant_int32 0)) DT_int32) (Add t (Rank a))))
          = lift2 (elementwise (+))
              (eval env (Mul (cast (GreaterEqual t (constant_int32 0)) DT_int32) t))
              (eval env (Mul (cast (Less t (constant_int32 0)) DT_int32) (Add t (Rank a))))"
    by simp
  then show ?thesis
    unfolding m1 m2
    by (simp add: lift2_def elementwise_vec_vec normalize_arith normalize_axes_def)
qed

lemma all_prod_vec: "all_prod (vec xs) = prod_list xs"
  by (simp add: all_prod_def vec_def map_nth)

lemma listdiff_vec:
  "listdiff_nd (vec xs) (vec ys) = Some (vec (filter (\<lambda>v. v \<notin> set ys) xs))"
  by (simp add: listdiff_nd_def vec_def)

lemma gather_vec:
  "list_all (\<lambda>i. 0 \<le> i \<and> i < int (length ps)) is
     \<Longrightarrow> gather_nd (vec ps) (vec is) = Some (vec (map (\<lambda>i. ps ! nat i) is))"
  by (simp add: gather_nd_def vec_def)

lemma concat_vec: "concat_nd (scalar 0) (vec xs) (vec ys) = Some (vec (xs @ ys))"
  by (simp add: concat_nd_def vec_def)

lemma pack_scalar: "pack_nd (scalar x) (scalar y) = Some (vec [x, y])"
  by (simp add: pack_nd_def vec_def scalar_def)

lemma free_axes_bounded: "list_all (\<lambda>i. 0 \<le> i \<and> i < int r) (map int (free_axes r axs))"
  by (simp add: free_axes_def list_all_iff)

lemma eval_free:
  assumes "eval env a = Some v" and "eval env nt = Some (vec (normalize_axes (length (dims v)) axs))"
  shows "eval env (ListDiff (Range (constant_int32 0) (Rank a) (constant_int32 1)) nt)
           = Some (vec (map int (free_axes (length (dims v)) axs)))"
  using assms
  by (simp add: lift2_def constant_int32_def range_nd_from0 listdiff_vec free_axes_def
      filter_map comp_def)

lemma gather_shape_free:
  "gather_nd (vec (map int s)) (vec (map int (free_axes (length s) axs)))
     = Some (vec (map (\<lambda>i. int (s ! i)) (free_axes (length s) axs)))"
proof -
  have "list_all (\<lambda>i. 0 \<le> i \<and> i < int (length (map int s))) (map int (free_axes (length s) axs))"
    using free_axes_bounded [of "length s" axs] by simp
  then have g: "gather_nd (vec (map int s)) (vec (map int (free_axes (length s) axs)))
      = Some (vec (map (\<lambda>i. map int s ! nat i) (map int (free_axes (length s) axs))))"
    by (rule gather_vec)
  have m: "map (\<lambda>i. map int s ! nat i) (map int (free_axes (length s) axs))
      = map (\<lambda>i. int (s ! i)) (free_axes (length s) axs)"
    by (simp add: comp_def free_axes_def)
  show ?thesis unfolding g m by (rule refl)
qed

lemma gather_shape_axes:
  assumes "valid_axes (length s) axs"
  shows "gather_nd (vec (map int s)) (vec (normalize_axes (length s) axs))
     = Some (vec (map (\<lambda>x. int (s ! nat x)) (normalize_axes (length s) axs)))"
proof -
  have "list_all (\<lambda>i. 0 \<le> i \<and> i < int (length (map int s))) (normalize_axes (length s) axs)"
    using assms by (simp add: valid_axes_def)
  then have g: "gather_nd (vec (map int s)) (vec (normalize_axes (length s) axs))
      = Some (vec (map (\<lambda>i. map int s ! nat i) (normalize_axes (length s) axs)))"
    by (rule gather_vec)
  have m: "map (\<lambda>i. map int s ! nat i) (normalize_axes (length s) axs)
      = map (\<lambda>x. int (s ! nat x)) (normalize_axes (length s) axs)"
    using assms by (auto simp add: valid_axes_def list_all_iff)
  show ?thesis unfolding g m by (rule refl)
qed

section \<open>The dynamic planner\<close>

lemma eval_dynamic_reshape:
  assumes snd: "sound shp env"
    and ea: "eval env a = Some v"
    and et: "eval env (axes_tensor ax) = Some (vec axs)"
    and dyn: "\<not> (is_fully_defined (get_shape shp a) \<and> is_py_axes ax)"
    and valid: "valid_axes (length (dims v)) axs"
  shows "\<exists>ra fa. tensordot_reshape shp a ax f = Inr (ra, TDims fa) \<and>
           eval env ra = plan_value v axs f \<and>
           eval env fa = Some (vec (map int (free_dims_value v axs)))"
proof -
  let ?r = "length (dims v)"
  let ?t = "axes_tensor ax"
  let ?nt = "Add (Mul (cast (GreaterEqual ?t (constant_int32 0)) DT_int32) ?t)
                 (Mul (cast (Less ?t (constant_int32 0)) DT_int32) (Add ?t (Rank a)))"
  let ?rng = "Range (constant_int32 0) (Rank a) (constant_int32 1)"
  let ?free = "ListDiff ?rng ?nt"
  let ?fd = "Gather (Shape a) ?free"
  let ?ad = "Gather (Shape a) ?nt"
  have rng: "range_op (Rank a) None (constant_int32 1) = Inr ?rng"
    by (simp add: range_op_int32_limit constant_int32_def)
  have nt: "eval env ?nt = Some (vec (normalize_axes ?r axs))"
    using ea et by (rule eval_normalize)
  have free: "eval env ?free = Some (vec (map int (free_axes ?r axs)))"
    using ea nt by (rule eval_free)
  have sh: "eval env (Shape a) = Some (vec (map int (dims v)))"
    using ea by simp
  have "eval env ?fd = lift2 gather_nd (eval env (Shape a)) (eval env ?free)" by simp
  then have fd: "eval env ?fd = Some (vec (map (\<lambda>i. int (dims v ! i)) (free_axes ?r axs)))"
    unfolding sh free by (simp add: lift2_def gather_shape_free)
  have "eval env ?ad = lift2 gather_nd (eval env (Shape a)) (eval env ?nt)" by simp
  then have ad: "eval env ?ad
      = Some (vec (map (\<lambda>x. int (dims v ! nat x)) (normalize_axes ?r axs)))"
    unfolding sh nt using valid by (simp add: lift2_def gather_shape_axes)
  obtain pf where pf: "reduce_prod shp ?fd None False None = Inr pf"
    and epf: "eval env pf = map_option (\<lambda>v. scalar (all_prod v)) (eval env ?fd)"
    using eval_reduce_prod [OF snd] by blast
  obtain pa where pa: "reduce_prod shp ?ad None False None = Inr pa"
    and epa: "eval env pa = map_option (\<lambda>v. scalar (all_prod v)) (eval env ?ad)"
    using eval_reduce_prod [OF snd] by blast
  have epf': "eval env pf
      = Some (scalar (prod_list (map (\<lambda>i. int (dims v ! i)) (free_axes ?r axs))))"
    unfolding epf fd by (simp add: all_prod_vec)
  have epa': "eval env pa
      = Some (scalar (prod_list (map (\<lambda>x. int (dims v ! nat x)) (normalize_axes ?r axs))))"
    unfolding epa ad by (simp add: all_prod_vec)
  let ?perm = "if f then Concat (constant_int32 0) ?nt ?free else Concat (constant_int32 0) ?free ?nt"
  let ?ns = "if f then Pack pa pf else Pack pf pa"
  have tr: "tensordot_reshape shp a ax f = Inr (Reshape (Transpose a ?perm) ?ns, TDims ?fd)"
    using dyn by (auto simp add: tensordot_reshape_def Let_def rng pf pa)
  have "eval env ?perm = (if f then lift2 (concat_nd (scalar 0)) (eval env ?nt) (eval env ?free)
                          else lift2 (concat_nd (scalar 0)) (eval env ?free) (eval env ?nt))"
    by (simp add: constant_int32_def)
  then have perm: "eval env ?perm
      = Some (vec (if f then normalize_axes ?r axs @ map int (free_axes ?r axs)
                   else map int (free_axes ?r axs) @ normalize_axes ?r axs))"
    unfolding nt free by (simp add: lift2_def concat_vec)
  have "eval env ?ns = (if f then lift2 pack_nd (eval env pa) (eval env pf)
                        else lift2 pack_nd (eval env pf) (eval env pa))"
    by simp
  then have ns: "eval env ?ns
      = Some (vec (if f
          then [prod_list (map (\<lambda>x. int (dims v ! nat x)) (normalize_axes ?r axs)),
                prod_list (map (\<lambda>i. int (dims v ! i)) (free_axes ?r axs))]
          else [prod_list (map (\<lambda>i. int (dims v ! i)) (free_axes ?r axs)),
                prod_list (map (\<lambda>x. int (dims v ! nat x)) (normalize_axes ?r axs))]))"
    unfolding epf' epa' by (simp add: lift2_def pack_scalar)
  have "eval env (Reshape (Transpose a ?perm) ?ns)
      = lift2 reshape_nd (lift2 transpose_nd (eval env a) (eval env ?perm)) (eval env ?ns)"
    by simp
  then have "eval env (Reshape (Transpose a ?perm) ?ns) = plan_value v axs f"
    unfolding ea perm ns
    by (simp add: lift2_def plan_value_def Let_def split: option.splits)
  moreover have "eval env ?fd = Some (vec (map int (free_dims_value v axs)))"
    unfolding fd by (simp add: free_dims_value_def comp_def)
  ultimately show ?thesis
    using tr by blast
qed

section \<open>The static planner and the contraction as a whole\<close>

lemma int_prod_list: "int (prod_list xs) = prod_list (map int xs)"
  by (induction xs) simp_all

lemma py_index_all_valid:
  "list_all (\<lambda>x. 0 \<le> x \<and> x < int (length s)) xs
     \<Longrightarrow> py_index_all s xs = Some (map (\<lambda>x. s ! nat x) xs)"
  by (induction xs) (simp_all add: py_index_def)

lemma eval_static_reshape:
  assumes snd: "sound shp env"
    and ea: "eval env a = Some v"
    and full: "is_fully_defined (get_shape shp a)"
    and valid: "valid_axes (length (dims v)) axs"
  shows "\<exists>ra. tensordot_reshape shp a (PyAxes axs) f = Inr (ra, PyDims (free_dims_value v axs)) \<and>
           eval env ra = plan_value v axs f"
proof -
  let ?r = "length (dims v)"
  have sh: "as_list (get_shape shp a) = dims v"
    using snd ea full by (rule sound_as_list)
  have norm: "map (\<lambda>i. if 0 \<le> i then i else i + int ?r) axs = normalize_axes ?r axs"
    by (simp add: normalize_axes_def)
  have free: "filter (\<lambda>i. int i \<notin> set (normalize_axes ?r axs)) [0..<?r] = free_axes ?r axs"
    by (simp add: free_axes_def)
  have idx: "py_index_all (dims v) (normalize_axes ?r axs)
               = Some (map (\<lambda>x. dims v ! nat x) (normalize_axes ?r axs))"
    using valid unfolding valid_axes_def by (rule py_index_all_valid)
  let ?pf = "prod_list (map (\<lambda>i. dims v ! i) (free_axes ?r axs))"
  let ?pa = "prod_list (map (\<lambda>x. dims v ! nat x) (normalize_axes ?r axs))"
  let ?perm = "if f then normalize_axes ?r axs @ map int (free_axes ?r axs)
               else map int (free_axes ?r axs) @ normalize_axes ?r axs"
  let ?ns = "if f then [?pa, ?pf] else [?pf, ?pa]"
  let ?ra = "Reshape (Transpose a (constant_int32_list ?perm)) (constant_int32_list (map int ?ns))"
  have tr: "tensordot_reshape shp a (PyAxes axs) f = Inr (?ra, PyDims (free_dims_value v axs))"
    using full
    by (simp add: tensordot_reshape_def is_py_axes_def Let_def sh norm free idx
        free_dims_value_def)
  have "eval env ?ra = plan_value v axs f"
    using ea
    by (simp add: constant_int32_list_def lift2_def plan_value_def Let_def int_prod_list
        comp_def split: option.splits)
  with tr show ?thesis by blast
qed

lemma eval_tensordot_reshape:
  assumes snd: "sound shp env"
    and ea: "eval env a = Some v"
    and et: "eval env (axes_tensor ax) = Some (vec axs)"
    and valid: "valid_axes (length (dims v)) axs"
  shows "\<exists>ra fd. tensordot_reshape shp a ax f = Inr (ra, fd) \<and>
           eval env ra = plan_value v axs f \<and>
           eval env (dims_tensor fd) = Some (vec (map int (free_dims_value v axs))) \<and>
           (\<forall>xs. fd = PyDims xs \<longrightarrow> xs = free_dims_value v axs)"
proof (cases "is_fully_defined (get_shape shp a) \<and> is_py_axes ax")
  case True
  then obtain ys where ax: "ax = PyAxes ys"
    by (cases ax) (simp_all add: is_py_axes_def)
  with et have "ys = axs"
    by (simp add: axes_tensor_def constant_int32_list_def vec_def)
  with ax True snd ea valid obtain ra where
    "tensordot_reshape shp a ax f = Inr (ra, PyDims (free_dims_value v axs))"
    "eval env ra = plan_value v axs f"
    using eval_static_reshape [of shp env a v axs f] by auto
  then show ?thesis
    by (auto simp add: dims_tensor_def constant_int32_list_def)
next
  case False
  with snd ea et valid obtain ra fa where
    "tensordot_reshape shp a ax f = Inr (ra, TDims fa)"
    "eval env ra = plan_value v axs f"
    "eval env fa = Some (vec (map int (free_dims_value v axs)))"
    using eval_dynamic_reshape [of shp env a v ax axs f] by auto
  then show ?thesis
    by (auto simp add: dims_tensor_def)
qed

lemma plan_value_rank: "plan_value v axs f = Some w \<Longrightarrow> length (dims w) = 2"
  by (auto simp add: plan_value_def Let_def reshape_nd_def vec_def split: option.splits if_splits)

lemma eval_tensordot:
  assumes snd: "sound shp env"
    and ea: "eval env a = Some va" and eb: "eval env b = Some vb"
    and axes: "tensordot_axes shp a axes = Inr (xa, xb)"
    and eta: "eval env (axes_tensor xa) = Some (vec a_axes)"
    and etb: "eval env (axes_tensor xb) = Some (vec b_axes)"
    and va: "valid_axes (length (dims va)) a_axes"
    and vb: "valid_axes (length (dims vb)) b_axes"
  shows "run env (tensordot shp a b axes) = tensordot_value va vb a_axes b_axes"
proof -
  obtain ra fa where ra: "tensordot_reshape shp a xa False = Inr (ra, fa)"
    and era: "eval env ra = plan_value va a_axes False"
    and efa: "eval env (dims_tensor fa) = Some (vec (map int (free_dims_value va a_axes)))"
    and pfa: "\<forall>xs. fa = PyDims xs \<longrightarrow> xs = free_dims_value va a_axes"
    using eval_tensordot_reshape [OF snd ea eta va, of False] by blast
  obtain rb fb where rb: "tensordot_reshape shp b xb True = Inr (rb, fb)"
    and erb: "eval env rb = plan_value vb b_axes True"
    and efb: "eval env (dims_tensor fb) = Some (vec (map int (free_dims_value vb b_axes)))"
    and pfb: "\<forall>xs. fb = PyDims xs \<longrightarrow> xs = free_dims_value vb b_axes"
    using eval_tensordot_reshape [OF snd eb etb vb, of True] by blast
  have mm: "eval env (matmul shp ra rb)
              = lift2 matmul_nd (plan_value va a_axes False) (plan_value vb b_axes True)"
    using eval_matmul [of env ra shp rb] era erb plan_value_rank by simp
  let ?shape = "vec (map int (free_dims_value va a_axes @ free_dims_value vb b_axes))"
  have "eval env (dynamic_result (matmul shp ra rb) fa fb)
          = lift2 reshape_nd (eval env (matmul shp ra rb))
              (lift2 (concat_nd (scalar 0)) (eval env (dims_tensor fa))
                 (eval env (dims_tensor fb)))"
    by (simp add: dynamic_result_def constant_int32_def)
  then have dynres: "eval env (dynamic_result (matmul shp ra rb) fa fb)
                  = lift2 reshape_nd (eval env (matmul shp ra rb)) (Some ?shape)"
    unfolding efa efb by (simp add: lift2_def concat_vec)
  have "\<exists>t. tensordot shp a b axes = Inr t \<and>
             eval env t = lift2 reshape_nd (eval env (matmul shp ra rb)) (Some ?shape)"
  proof (cases fa)
    case (PyDims xs)
    note fa_py = this
    show ?thesis
    proof (cases fb)
      case (PyDims ys)
      with fa_py pfa pfb show ?thesis
        by (simp add: tensordot_def axes ra rb Let_def constant_int32_list_def)
    next
      case (TDims t)
      with fa_py dynres show ?thesis
        by (simp add: tensordot_def axes ra rb Let_def)
    qed
  next
    case (TDims t)
    with dynres show ?thesis
      by (simp add: tensordot_def axes ra rb Let_def)
  qed
  then show ?thesis
    unfolding mm by (auto simp add: run_def tensordot_value_def lift2_def split: option.splits)
qed

section \<open>Contraction with an integer axes argument\<close>

lemma tensordot_axes_static:
  assumes "ndims (get_shape shp a) = Some r" and "1 \<le> n"
  shows "\<exists>ta tb. tensordot_axes shp a (AxesInt n) = Inr (TAxes ta, TAxes tb) \<and>
           eval env ta = Some (vec (map (\<lambda>i. int r - n + int i) [0..<nat n])) \<and>
           eval env tb = Some (vec (map int [0..<nat n]))"
proof -
  let ?ta = "Range (constant_int32 (int r - n)) (constant_int32 (int r)) (constant_int32 1)"
  let ?tb = "Range (constant_int32 0) (constant_int32 n) (constant_int32 1)"
  have "tensordot_axes shp a (AxesInt n) = Inr (TAxes ?ta, TAxes ?tb)"
    using assms
    by (simp add: tensordot_axes_def Let_def range_op_int32 range_op_int32_limit
        constant_int32_def)
  moreover have "eval env ?ta = Some (vec (map (\<lambda>i. int r - n + int i) [0..<nat n]))"
    using assms(2) by (simp add: constant_int32_def lift2_def range_nd_step1)
  moreover have "eval env ?tb = Some (vec (map int [0..<nat n]))"
    using assms(2) by (simp add: constant_int32_def lift2_def range_nd_step1)
  ultimately show ?thesis by blast
qed

lemma tensordot_axes_dynamic:
  assumes "ndims (get_shape shp a) = None" and "1 \<le> n" and "eval env a = Some v"
  shows "\<exists>ta tb. tensordot_axes shp a (AxesInt n) = Inr (TAxes ta, TAxes tb) \<and>
           eval env ta = Some (vec (map (\<lambda>i. int (length (dims v)) - n + int i) [0..<nat n])) \<and>
           eval env tb = Some (vec (map int [0..<length (dims v)]))"
proof -
  let ?ta = "Range (Sub (Rank a) (constant_int32 n)) (Rank a) (constant_int32 1)"
  let ?tb = "Range (constant_int32 0) (Rank a) (constant_int32 1)"
  have "tensordot_axes shp a (AxesInt n) = Inr (TAxes ?ta, TAxes ?tb)"
    using assms(1,2) by (simp add: tensordot_axes_def Let_def array_ops_range_def)
  moreover have "eval env (Sub (Rank a) (constant_int32 n))
                   = Some (scalar (int (length (dims v)) - n))"
    using assms(3)
    by (simp add: constant_int32_def lift2_def scalar_def elementwise_same)
  then have "eval env ?ta
      = Some (vec (map (\<lambda>i. int (length (dims v)) - n + int i) [0..<nat n]))"
    using assms(2,3) by (simp add: constant_int32_def lift2_def range_nd_step1 del: eval.simps(8))
  moreover have "eval env ?tb = Some (vec (map int [0..<length (dims v)]))"
    using assms(3) by (simp add: constant_int32_def lift2_def range_nd_from0)
  ultimately show ?thesis by blast
qed

lemma upt_2: "[0..<2] = [0, Suc 0]" by (simp add: upt_rec)



lemma upt_4: "[0..<4] = [0, Suc 0, 2, 3]" by (simp add: upt_rec)












section \<open>The two forms of the axes argument\<close>



text \<open>
  Claim C2 at an operand of statically unknown rank, here one that holds a 2 by 3 matrix at
  run time, with \<^verbatim>\<open>axes = 1\<close>: the axes computed for \<open>b\<close> are \<open>[0, 1]\<close>, the whole range
  of the rank of \<open>a\<close>, where the claim and the function's documentation have \<open>[0]\<close>, the
  first \<^verbatim>\<open>axes\<close> axes of \<open>b\<close>.
\<close>

theorem tensordot_axes_unknown_rank:
  "tensordot_axes (\<lambda>t. None) (Placeholder ''a'' DT_float32) (AxesInt 1)
     = Inr (TAxes (Range (Sub (Rank (Placeholder ''a'' DT_float32)) (Const DT_int32 (scalar 1)))
                    (Rank (Placeholder ''a'' DT_float32)) (Const DT_int32 (scalar 1))),
            TAxes (Range (Const DT_int32 (scalar 0)) (Rank (Placeholder ''a'' DT_float32))
                    (Const DT_int32 (scalar 1)))) \<and>
   eval (\<lambda>n. NDArray [2, 3] [1, 2, 3, 4, 5, 6])
     (Range (Const DT_int32 (scalar 0)) (Rank (Placeholder ''a'' DT_float32))
        (Const DT_int32 (scalar 1)))
     = Some (vec [0, 1])"
  by (simp add: tensordot_axes_def get_shape_def ndims_def array_ops_range_def
      constant_int32_def lift2_def range_nd_step1 upt_2 Let_def)


section \<open>Failed plans\<close>

lemma lift2_None [simp]: "lift2 f None y = None" "lift2 f x None = None"
  by (simp_all add: lift2_def split: option.splits)

lemma transpose_nd_invalid:
  "\<not> list_all (\<lambda>i. 0 \<le> i \<and> i < int (length (dims v))) p \<Longrightarrow> transpose_nd v (vec p) = None"
  by (simp add: transpose_nd_def vec_def Let_def)

lemma plan_value_invalid: "\<not> valid_axes (length (dims v)) axs \<Longrightarrow> plan_value v axs f = None"
  by (simp add: plan_value_def valid_axes_def Let_def transpose_nd_invalid)

lemma eval_matmul_None:
  "eval env x = None \<or> eval env y = None \<Longrightarrow> eval env (matmul shp x y) = None"
  by (auto simp add: matmul_def Let_def)

lemma static_reshape_fails:
  assumes full: "is_fully_defined (get_shape shp a)"
    and bad: "eval env a = None \<or>
              (\<exists>v. eval env a = Some v \<and> as_list (get_shape shp a) = dims v \<and>
                   \<not> valid_axes (length (dims v)) axs)"
  shows "(\<exists>e. tensordot_reshape shp a (PyAxes axs) f = Inl e) \<or>
         (\<exists>ra fd. tensordot_reshape shp a (PyAxes axs) f = Inr (ra, fd) \<and> eval env ra = None)"
proof (cases "py_index_all (as_list (get_shape shp a))
                (normalize_axes (length (as_list (get_shape shp a))) axs)")
  case None
  with full show ?thesis
    by (simp add: tensordot_reshape_def is_py_axes_def Let_def normalize_axes_def)
next
  case (Some ds)
  let ?r = "length (as_list (get_shape shp a))"
  let ?perm = "if f then normalize_axes ?r axs @ map int (free_axes ?r axs)
               else map int (free_axes ?r axs) @ normalize_axes ?r axs"
  obtain ns fd where tr: "tensordot_reshape shp a (PyAxes axs) f
      = Inr (Reshape (Transpose a (constant_int32_list ?perm)) ns, fd)"
    using full Some
    by (simp add: tensordot_reshape_def is_py_axes_def Let_def normalize_axes_def free_axes_def)
  have "eval env (Transpose a (constant_int32_list ?perm)) = None"
  proof (cases "eval env a")
    case None
    then show ?thesis by simp
  next
    case (Some v)
    with bad have sh: "as_list (get_shape shp a) = dims v"
      and inv: "\<not> valid_axes (length (dims v)) axs" by auto
    from inv have "\<not> list_all (\<lambda>i. 0 \<le> i \<and> i < int (length (dims v)))
        (if f then normalize_axes (length (dims v)) axs @ map int (free_axes (length (dims v)) axs)
         else map int (free_axes (length (dims v)) axs) @ normalize_axes (length (dims v)) axs)"
      by (simp add: valid_axes_def)
    then show ?thesis
      unfolding sh using Some
      by (simp add: constant_int32_list_def lift2_def transpose_nd_invalid del: list_all_append)
  qed
  then have "eval env (Reshape (Transpose a (constant_int32_list ?perm)) ns) = None"
    by simp
  with tr show ?thesis by blast
qed

lemma dynamic_reshape_fails:
  assumes snd: "sound shp env"
    and dyn: "\<not> (is_fully_defined (get_shape shp a) \<and> is_py_axes ax)"
    and bad: "eval env a = None \<or>
              (\<exists>v axs. eval env a = Some v \<and> eval env (axes_tensor ax) = Some (vec axs) \<and>
                   \<not> valid_axes (length (dims v)) axs)"
  shows "\<exists>ra fd. tensordot_reshape shp a ax f = Inr (ra, fd) \<and> eval env ra = None"
proof -
  let ?t = "axes_tensor ax"
  let ?nt = "Add (Mul (cast (GreaterEqual ?t (constant_int32 0)) DT_int32) ?t)
                 (Mul (cast (Less ?t (constant_int32 0)) DT_int32) (Add ?t (Rank a)))"
  let ?rng = "Range (constant_int32 0) (Rank a) (constant_int32 1)"
  let ?free = "ListDiff ?rng ?nt"
  let ?fd = "Gather (Shape a) ?free"
  let ?ad = "Gather (Shape a) ?nt"
  have rng: "range_op (Rank a) None (constant_int32 1) = Inr ?rng"
    by (simp add: range_op_int32_limit constant_int32_def)
  obtain pf where pf: "reduce_prod shp ?fd None False None = Inr pf"
    using eval_reduce_prod [OF snd] by blast
  obtain pa where pa: "reduce_prod shp ?ad None False None = Inr pa"
    and epa: "eval env pa = map_option (\<lambda>v. scalar (all_prod v)) (eval env ?ad)"
    using eval_reduce_prod [OF snd] by blast
  let ?perm = "if f then Concat (constant_int32 0) ?nt ?free else Concat (constant_int32 0) ?free ?nt"
  let ?ns = "if f then Pack pa pf else Pack pf pa"
  have tr: "tensordot_reshape shp a ax f = Inr (Reshape (Transpose a ?perm) ?ns, TDims ?fd)"
    using dyn by (auto simp add: tensordot_reshape_def Let_def rng pf pa)
  have "eval env (Reshape (Transpose a ?perm) ?ns) = None"
  proof (cases "eval env a")
    case None
    then show ?thesis by simp
  next
    case (Some v)
    with bad obtain axs where et: "eval env ?t = Some (vec axs)"
      and inv: "\<not> valid_axes (length (dims v)) axs" by auto
    have nt: "eval env ?nt = Some (vec (normalize_axes (length (dims v)) axs))"
      using Some et by (rule eval_normalize)
    have "eval env ?ad = lift2 gather_nd (eval env (Shape a)) (eval env ?nt)" by simp
    then have "eval env ?ad = None"
      unfolding nt using Some inv
      by (simp add: lift2_def gather_nd_def vec_def valid_axes_def)
    then have "eval env pa = None" using epa by simp
    then have "eval env ?ns = None" by simp
    then show ?thesis by simp
  qed
  with tr show ?thesis by blast
qed

lemma tensordot_reshape_fails:
  assumes snd: "sound shp env"
    and et: "eval env (axes_tensor ax) = Some (vec axs)"
    and bad: "eval env a = None \<or>
              (\<exists>v. eval env a = Some v \<and> \<not> valid_axes (length (dims v)) axs)"
  shows "(\<exists>e. tensordot_reshape shp a ax f = Inl e) \<or>
         (\<exists>ra fd. tensordot_reshape shp a ax f = Inr (ra, fd) \<and> eval env ra = None)"
proof (cases "is_fully_defined (get_shape shp a) \<and> is_py_axes ax")
  case True
  then obtain ys where ax: "ax = PyAxes ys"
    by (cases ax) (simp_all add: is_py_axes_def)
  with et have ys: "ys = axs"
    by (simp add: axes_tensor_def constant_int32_list_def vec_def)
  have "eval env a = None \<or>
        (\<exists>v. eval env a = Some v \<and> as_list (get_shape shp a) = dims v \<and>
             \<not> valid_axes (length (dims v)) axs)"
    using bad True snd by (auto dest: sound_as_list)
  with True show ?thesis
    unfolding ax ys by (intro static_reshape_fails) simp_all
next
  case False
  have "eval env a = None \<or>
        (\<exists>v axs. eval env a = Some v \<and> eval env (axes_tensor ax) = Some (vec axs) \<and>
             \<not> valid_axes (length (dims v)) axs)"
    using bad et by auto
  with snd False have "\<exists>ra fd. tensordot_reshape shp a ax f = Inr (ra, fd) \<and> eval env ra = None"
    by (rule dynamic_reshape_fails)
  then show ?thesis by blast
qed

section \<open>Agreement of the two forms\<close>

lemma lift2_Some: "lift2 f (Some a) (Some b) = f a b"
  by (simp add: lift2_def)

lemma run_tensordot_None:
  assumes axes: "tensordot_axes shp a axes = Inr (xa, xb)"
    and bad: "(\<exists>e. tensordot_reshape shp a xa False = Inl e) \<or>
              (\<exists>ra fd. tensordot_reshape shp a xa False = Inr (ra, fd) \<and> eval env ra = None) \<or>
              (\<exists>e. tensordot_reshape shp b xb True = Inl e) \<or>
              (\<exists>rb fd. tensordot_reshape shp b xb True = Inr (rb, fd) \<and> eval env rb = None)"
  shows "run env (tensordot shp a b axes) = None"
proof (cases "tensordot_reshape shp a xa False")
  case (Inl e)
  then show ?thesis by (simp add: run_def tensordot_def axes)
next
  case (Inr pa)
  obtain ra fa where pa: "pa = (ra, fa)" by (cases pa)
  show ?thesis
  proof (cases "tensordot_reshape shp b xb True")
    case (Inl e)
    then show ?thesis by (simp add: run_def tensordot_def axes Inr pa)
  next
    case rb: (Inr pb)
    obtain rb' fb where pb: "pb = (rb', fb)" by (cases pb)
    from bad have "eval env ra = None \<or> eval env rb' = None"
      unfolding Inr rb pa pb by auto
    then have mm: "eval env (matmul shp ra rb') = None"
      by (rule eval_matmul_None)
    have "eval env (Reshape (matmul shp ra rb') t) = None" for t
      unfolding eval.simps mm by simp
    then show ?thesis
      by (simp add: run_def tensordot_def axes Inr rb pa pb Let_def dynamic_result_def
          split: dims_val.splits del: eval.simps)
  qed
qed

lemma run_tensordot:
  assumes snd: "sound shp env"
    and axes: "tensordot_axes shp a axes = Inr (xa, xb)"
    and eta: "eval env (axes_tensor xa) = Some (vec a_axes)"
    and etb: "eval env (axes_tensor xb) = Some (vec b_axes)"
  shows "run env (tensordot shp a b axes)
           = lift2 (\<lambda>va vb. tensordot_value va vb a_axes b_axes) (eval env a) (eval env b)"
proof (cases "(\<exists>va. eval env a = Some va \<and> valid_axes (length (dims va)) a_axes) \<and>
              (\<exists>vb. eval env b = Some vb \<and> valid_axes (length (dims vb)) b_axes)")
  case True
  then obtain va vb where ea: "eval env a = Some va" and eb: "eval env b = Some vb"
    and va: "valid_axes (length (dims va)) a_axes" and vb: "valid_axes (length (dims vb)) b_axes"
    by blast
  have "run env (tensordot shp a b axes) = tensordot_value va vb a_axes b_axes"
    using snd ea eb axes eta etb va vb by (rule eval_tensordot)
  then show ?thesis by (simp add: ea eb lift2_def)
next
  case False
  then have bad: "(eval env a = None \<or>
                   (\<exists>v. eval env a = Some v \<and> \<not> valid_axes (length (dims v)) a_axes)) \<or>
                  (eval env b = None \<or>
                   (\<exists>v. eval env b = Some v \<and> \<not> valid_axes (length (dims v)) b_axes))"
    by (cases "eval env a"; cases "eval env b") auto
  have "run env (tensordot shp a b axes) = None"
    using axes
  proof (rule run_tensordot_None)
    from bad show "(\<exists>e. tensordot_reshape shp a xa False = Inl e) \<or>
              (\<exists>ra fd. tensordot_reshape shp a xa False = Inr (ra, fd) \<and> eval env ra = None) \<or>
              (\<exists>e. tensordot_reshape shp b xb True = Inl e) \<or>
              (\<exists>rb fd. tensordot_reshape shp b xb True = Inr (rb, fd) \<and> eval env rb = None)"
    proof
      assume "eval env a = None \<or>
              (\<exists>v. eval env a = Some v \<and> \<not> valid_axes (length (dims v)) a_axes)"
      with snd eta show ?thesis
        using tensordot_reshape_fails [of shp env xa a_axes a False] by blast
    next
      assume "eval env b = None \<or>
              (\<exists>v. eval env b = Some v \<and> \<not> valid_axes (length (dims v)) b_axes)"
      with snd etb show ?thesis
        using tensordot_reshape_fails [of shp env xb b_axes b True] by blast
    qed
  qed
  moreover have "lift2 (\<lambda>va vb. tensordot_value va vb a_axes b_axes) (eval env a) (eval env b)
                   = None"
    using False
    by (cases "eval env a"; cases "eval env b")
      (auto simp add: lift2_Some tensordot_value_def plan_value_invalid)
  ultimately show ?thesis by simp
qed



section \<open>The integer form in general\<close>

text \<open>
  The integer form at a statically known rank \<open>r\<close>: the last \<open>n\<close> axes of \<open>a\<close> against the
  first \<open>n\<close> axes of \<open>b\<close>.
\<close>

lemma run_tensordot_int:
  assumes "sound shp env" and "ndims (get_shape shp a) = Some r" and "1 \<le> n"
  shows "run env (tensordot shp a b (AxesInt n))
           = lift2 (\<lambda>va vb. tensordot_value va vb
                      (map (\<lambda>i. int r - n + int i) [0..<nat n]) (map int [0..<nat n]))
               (eval env a) (eval env b)"
proof -
  obtain ta tb where axes: "tensordot_axes shp a (AxesInt n) = Inr (TAxes ta, TAxes tb)"
    and ta: "eval env ta = Some (vec (map (\<lambda>i. int r - n + int i) [0..<nat n]))"
    and tb: "eval env tb = Some (vec (map int [0..<nat n]))"
    using tensordot_axes_static [OF assms(2,3), of env] by auto
  have ta': "eval env (axes_tensor (TAxes ta))
               = Some (vec (map (\<lambda>i. int r - n + int i) [0..<nat n]))"
    using ta by (simp add: axes_tensor_def)
  have tb': "eval env (axes_tensor (TAxes tb)) = Some (vec (map int [0..<nat n]))"
    using tb by (simp add: axes_tensor_def)
  show ?thesis
    using assms(1) axes ta' tb' by (rule run_tensordot)
qed

text \<open>
  With the rank of \<open>a\<close> unknown while the graph is built, the integer form contracts every
  axis of \<open>b\<close> up to the rank of \<open>a\<close>, and the product of the spec's example fails at run
  time; the pair form on the same operands gives the product.
\<close>

lemma tensordot_unknown_rank_fails:
  "run (\<lambda>n. NDArray [2, 3] [1, 2, 3, 4, 5, 6])
     (tensordot (\<lambda>t. None) (Placeholder ''a'' DT_float32)
        (Const DT_float32 (NDArray [3, 2] [7, 8, 9, 10, 11, 12])) (AxesInt 1)) = None"
  "run (\<lambda>n. NDArray [2, 3] [1, 2, 3, 4, 5, 6])
     (tensordot (\<lambda>t. None) (Placeholder ''a'' DT_float32)
        (Const DT_float32 (NDArray [3, 2] [7, 8, 9, 10, 11, 12])) (AxesList [[1], [0]]))
     = Some (NDArray [2, 2] [58, 64, 139, 154])"
  by code_simp+

end
